theory Spec2Isabelle
  imports Complex_Main "HOL-Library.Word" "HOL-Library.Signed_Division" "HOL-Library.List_Lexorder"
begin

section \<open>Geometry and core types\<close>

text \<open>
  Modelled from the spec: the headers \<^verbatim>\<open>contrast/types.hpp\<close>, \<^verbatim>\<open>board.hpp\<close>,
  \<^verbatim>\<open>move.hpp\<close>, \<^verbatim>\<open>move_list.hpp\<close> and \<^verbatim>\<open>game_state.hpp\<close> are missing from the
  sources; the declarations of this section follow section 3 of the specification (board
  5 x 5, row-major index \<open>y * W + x\<close>, integer encodings 0/1/2 of \<open>Player\<close> and
  \<open>TileType\<close>) and the way the code uses them. A \<^verbatim>\<open>MoveList\<close> is a list of moves.
\<close>

definition BOARD_W :: int where "BOARD_W = 5"
definition BOARD_H :: int where "BOARD_H = 5"

datatype Player = NoPlayer | Black | White

datatype TileType = TileNone | TileBlack | TileGray

text \<open>\<^verbatim>\<open>static_cast<int>\<close> on the two enumerations.\<close>

fun player_int :: "Player \<Rightarrow> int" where
  "player_int NoPlayer = 0"
| "player_int Black = 1"
| "player_int White = 2"

fun tile_int :: "TileType \<Rightarrow> int" where
  "tile_int TileNone = 0"
| "tile_int TileBlack = 1"
| "tile_int TileGray = 2"

record Cell =
  occupant :: Player
  tile :: TileType

record TileInventory =
  black :: int
  gray :: int

type_synonym Board = "Cell list"

text \<open>
  Modelled from the spec: \<^verbatim>\<open>Board::at(x, y)\<close> (\<^verbatim>\<open>board.hpp\<close> is missing), the cell at
  linear index \<open>y * W + x\<close>, read and written.
\<close>

definition board_at :: "Board \<Rightarrow> int \<Rightarrow> int \<Rightarrow> Cell" where
  "board_at b x y = b ! nat (y * BOARD_W + x)"

definition board_set :: "Board \<Rightarrow> int \<Rightarrow> int \<Rightarrow> Cell \<Rightarrow> Board" where
  "board_set b x y c = b[nat (y * BOARD_W + x) := c]"

record GameState =
  board :: Board
  to_move :: Player
  inv_black :: TileInventory
  inv_white :: TileInventory

text \<open>
  Modelled from the spec: \<^verbatim>\<open>GameState::inventory(p)\<close> (\<^verbatim>\<open>game_state.hpp\<close> is missing). The
  specification attaches one inventory to Black and one to White; the value for \<open>NoPlayer\<close>
  is outside the specification (here: White's slot).
\<close>

definition inventory :: "GameState \<Rightarrow> Player \<Rightarrow> TileInventory" where
  "inventory s p = (if p = Black then inv_black s else inv_white s)"

definition current_player :: "GameState \<Rightarrow> Player" where
  "current_player s = to_move s"

record Move =
  sx :: int
  sy :: int
  dx :: int
  dy :: int
  place_tile :: bool
  tx :: int
  ty :: int
  mtile :: TileType

text \<open>
  Modelled from the spec: a default-constructed \<^verbatim>\<open>Move\<close> (\<^verbatim>\<open>move.hpp\<close> is missing). The
  fields that \<^verbatim>\<open>legal_moves\<close> does not assign on a base move (\<open>tx\<close>, \<open>ty\<close>, \<open>tile\<close>) keep
  these values; no statement below depends on them.
\<close>

definition Move_default :: Move where
  "Move_default = \<lparr>sx = 0, sy = 0, dx = 0, dy = 0, place_tile = False, tx = 0, ty = 0, mtile = TileNone\<rparr>"

text \<open>The well-formedness the C++ types guarantee: 25 cells, a side to move.\<close>

definition wf_board :: "Board \<Rightarrow> bool" where
  "wf_board b = (length b = 25)"

text \<open>
  Modelled from the spec: \<^verbatim>\<open>GameState::reset()\<close> (\<^verbatim>\<open>game_state.hpp\<close> is missing): rank 0
  Black, rank 4 White, inventories (3, 1), Black to move, as the rules tests also check.
\<close>

definition empty_cell :: Cell where
  "empty_cell = \<lparr>occupant = NoPlayer, tile = TileNone\<rparr>"

definition initial_board :: Board where
  "initial_board =
     replicate 5 \<lparr>occupant = Black, tile = TileNone\<rparr> @ replicate 15 empty_cell
       @ replicate 5 \<lparr>occupant = White, tile = TileNone\<rparr>"

definition initial_state :: GameState where
  "initial_state = \<lparr>board = initial_board, to_move = Black,
     inv_black = \<lparr>black = 3, gray = 1\<rparr>, inv_white = \<lparr>black = 3, gray = 1\<rparr>\<rparr>"

section \<open>Precomputed move table\<close>

text \<open>
  \<^verbatim>\<open>core/include/contrast/precomputed_move_table.hpp\<close>: \<^verbatim>\<open>kMoveTable[tile][origin]\<close>,
  transcribed entry by entry, padding included.
\<close>

datatype precomputed_direction = PrecomputedDirection (step_count: nat) (rel_index: "int list")

datatype move_table_entry = MoveTableEntry (dir_count: nat) (dirs: "precomputed_direction list")

definition kMoveTable_None :: "move_table_entry list" where
  "kMoveTable_None = [
    MoveTableEntry 4 [
      PrecomputedDirection 4 [1, 2, 3, 4], PrecomputedDirection 0 [0, 0, 0, 0], PrecomputedDirection 4 [5, 10, 15, 20], PrecomputedDirection 0 [0, 0, 0, 0],
      PrecomputedDirection 0 [0, 0, 0, 0], PrecomputedDirection 0 [0, 0, 0, 0], PrecomputedDirection 0 [0, 0, 0, 0], PrecomputedDirection 0 [0, 0, 0, 0]],
    MoveTableEntry 4 [
      PrecomputedDirection 3 [1, 2, 3, 0], PrecomputedDirection 1 [-1, 0, 0, 0], PrecomputedDirection 4 [5, 10, 15, 20], PrecomputedDirection 0 [0, 0, 0, 0],
      PrecomputedDirection 0 [0, 0, 0, 0], PrecomputedDirection 0 [0, 0, 0, 0], PrecomputedDirection 0 [0, 0, 0, 0], PrecomputedDirection 0 [0, 0, 0, 0]],
    MoveTableEntry 4 [
      PrecomputedDirection 2 [1, 2, 0, 0], PrecomputedDirection 2 [-1, -2, 0, 0], PrecomputedDirection 4 [5, 10, 15, 20], PrecomputedDirection 0 [0, 0, 0, 0],
      PrecomputedDirection 0 [0, 0, 0, 0], PrecomputedDirection 0 [0, 0, 0, 0], PrecomputedDirection 0 [0, 0, 0, 0], PrecomputedDirection 0 [0, 0, 0, 0]],
    MoveTableEntry 4 [
      PrecomputedDirection 1 [1, 0, 0, 0], PrecomputedDirection 3 [-1, -2, -3, 0], PrecomputedDirection 4 [5, 10, 15, 20], PrecomputedDirection 0 [0, 0, 0, 0],
      PrecomputedDirection 0 [0, 0, 0, 0], PrecomputedDirection 0 [0, 0, 0, 0], PrecomputedDirection 0 [0, 0, 0, 0], PrecomputedDirection 0 [0, 0, 0, 0]],
    MoveTableEntry 4 [
      PrecomputedDirection 0 [0, 0, 0, 0], PrecomputedDirection 4 [-1, -2, -3, -4], PrecomputedDirection 4 [5, 10, 15, 20], PrecomputedDirection 0 [0, 0, 0, 0],
      PrecomputedDirection 0 [0, 0, 0, 0], PrecomputedDirection 0 [0, 0, 0, 0], PrecomputedDirection 0 [0, 0, 0, 0], PrecomputedDirection 0 [0, 0, 0, 0]],
    MoveTableEntry 4 [
      PrecomputedDirection 4 [1, 2, 3, 4], PrecomputedDirection 0 [0, 0, 0, 0], PrecomputedDirection 3 [5, 10, 15, 0], PrecomputedDirection 1 [-5, 0, 0, 0],
      PrecomputedDirection 0 [0, 0, 0, 0], PrecomputedDirection 0 [0, 0, 0, 0], PrecomputedDirection 0 [0, 0, 0, 0], PrecomputedDirection 0 [0, 0, 0, 0]],
    MoveTableEntry 4 [
      PrecomputedDirection 3 [1, 2, 3, 0], PrecomputedDirection 1 [-1, 0, 0, 0], PrecomputedDirection 3 [5, 10, 15, 0], PrecomputedDirection 1 [-5, 0, 0, 0],
      PrecomputedDirection 0 [0, 0, 0, 0], PrecomputedDirection 0 [0, 0, 0, 0], PrecomputedDirection 0 [0, 0, 0, 0], PrecomputedDirection 0 [0, 0, 0, 0]],
    MoveTableEntry 4 [
      PrecomputedDirection 2 [1, 2, 0, 0], PrecomputedDirection 2 [-1, -2, 0, 0], PrecomputedDirection 3 [5, 10, 15, 0], PrecomputedDirection 1 [-5, 0, 0, 0],
      PrecomputedDirection 0 [0, 0, 0, 0], PrecomputedDirection 0 [0, 0, 0, 0], PrecomputedDirection 0 [0, 0, 0, 0], PrecomputedDirection 0 [0, 0, 0, 0]],
    MoveTableEntry 4 [
      PrecomputedDirection 1 [1, 0, 0, 0], PrecomputedDirection 3 [-1, -2, -3, 0], PrecomputedDirection 3 [5, 10, 15, 0], PrecomputedDirection 1 [-5, 0, 0, 0],
      PrecomputedDirection 0 [0, 0, 0, 0], PrecomputedDirection 0 [0, 0, 0, 0], PrecomputedDirection 0 [0, 0, 0, 0], PrecomputedDirection 0 [0, 0, 0, 0]],
    MoveTableEntry 4 [
      PrecomputedDirection 0 [0, 0, 0, 0], PrecomputedDirection 4 [-1, -2, -3, -4], PrecomputedDirection 3 [5, 10, 15, 0], PrecomputedDirection 1 [-5, 0, 0, 0],
      PrecomputedDirection 0 [0, 0, 0, 0], PrecomputedDirection 0 [0, 0, 0, 0], PrecomputedDirection 0 [0, 0, 0, 0], PrecomputedDirection 0 [0, 0, 0, 0]],
    MoveTableEntry 4 [
      PrecomputedDirection 4 [1, 2, 3, 4], PrecomputedDirection 0 [0, 0, 0, 0], PrecomputedDirection 2 [5, 10, 0, 0], PrecomputedDirection 2 [-5, -10, 0, 0],
      PrecomputedDirection 0 [0, 0, 0, 0], PrecomputedDirection 0 [0, 0, 0, 0], PrecomputedDirection 0 [0, 0, 0, 0], PrecomputedDirection 0 [0, 0, 0, 0]],
    MoveTableEntry 4 [
      PrecomputedDirection 3 [1, 2, 3, 0], PrecomputedDirection 1 [-1, 0, 0, 0], PrecomputedDirection 2 [5, 10, 0, 0], PrecomputedDirection 2 [-5, -10, 0, 0],
      PrecomputedDirection 0 [0, 0, 0, 0], PrecomputedDirection 0 [0, 0, 0, 0], PrecomputedDirection 0 [0, 0, 0, 0], PrecomputedDirection 0 [0, 0, 0, 0]],
    MoveTableEntry 4 [
      PrecomputedDirection 2 [1, 2, 0, 0], PrecomputedDirection 2 [-1, -2, 0, 0], PrecomputedDirection 2 [5, 10, 0, 0], PrecomputedDirection 2 [-5, -10, 0, 0],
      PrecomputedDirection 0 [0, 0, 0, 0], PrecomputedDirection 0 [0, 0, 0, 0], PrecomputedDirection 0 [0, 0, 0, 0], PrecomputedDirection 0 [0, 0, 0, 0]],
    MoveTableEntry 4 [
      PrecomputedDirection 1 [1, 0, 0, 0], PrecomputedDirection 3 [-1, -2, -3, 0], PrecomputedDirection 2 [5, 10, 0, 0], PrecomputedDirection 2 [-5, -10, 0, 0],
      PrecomputedDirection 0 [0, 0, 0, 0], PrecomputedDirection 0 [0, 0, 0, 0], PrecomputedDirection 0 [0, 0, 0, 0], PrecomputedDirection 0 [0, 0, 0, 0]],
    MoveTableEntry 4 [
      PrecomputedDirection 0 [0, 0, 0, 0], PrecomputedDirection 4 [-1, -2, -3, -4], PrecomputedDirection 2 [5, 10, 0, 0], PrecomputedDirection 2 [-5, -10, 0, 0],
      PrecomputedDirection 0 [0, 0, 0, 0], PrecomputedDirection 0 [0, 0, 0, 0], PrecomputedDirection 0 [0, 0, 0, 0], PrecomputedDirection 0 [0, 0, 0, 0]],
    MoveTableEntry 4 [
      PrecomputedDirection 4 [1, 2, 3, 4], PrecomputedDirection 0 [0, 0, 0, 0], PrecomputedDirection 1 [5, 0, 0, 0], PrecomputedDirection 3 [-5, -10, -15, 0],
      PrecomputedDirection 0 [0, 0, 0, 0], PrecomputedDirection 0 [0, 0, 0, 0], PrecomputedDirection 0 [0, 0, 0, 0], PrecomputedDirection 0 [0, 0, 0, 0]],
    MoveTableEntry 4 [
      PrecomputedDirection 3 [1, 2, 3, 0], PrecomputedDirection 1 [-1, 0, 0, 0], PrecomputedDirection 1 [5, 0, 0, 0], PrecomputedDirection 3 [-5, -10, -15, 0],
      PrecomputedDirection 0 [0, 0, 0, 0], PrecomputedDirection 0 [0, 0, 0, 0], PrecomputedDirection 0 [0, 0, 0, 0], PrecomputedDirection 0 [0, 0, 0, 0]],
    MoveTableEntry 4 [
      PrecomputedDirection 2 [1, 2, 0, 0], PrecomputedDirection 2 [-1, -2, 0, 0], PrecomputedDirection 1 [5, 0, 0, 0], PrecomputedDirection 3 [-5, -10, -15, 0],
      PrecomputedDirection 0 [0, 0, 0, 0], PrecomputedDirection 0 [0, 0, 0, 0], PrecomputedDirection 0 [0, 0, 0, 0], PrecomputedDirection 0 [0, 0, 0, 0]],
    MoveTableEntry 4 [
      PrecomputedDirection 1 [1, 0, 0, 0], PrecomputedDirection 3 [-1, -2, -3, 0], PrecomputedDirection 1 [5, 0, 0, 0], PrecomputedDirection 3 [-5, -10, -15, 0],
      PrecomputedDirection 0 [0, 0, 0, 0], PrecomputedDirection 0 [0, 0, 0, 0], PrecomputedDirection 0 [0, 0, 0, 0], PrecomputedDirection 0 [0, 0, 0, 0]],
    MoveTableEntry 4 [
      PrecomputedDirection 0 [0, 0, 0, 0], PrecomputedDirection 4 [-1, -2, -3, -4], PrecomputedDirection 1 [5, 0, 0, 0], PrecomputedDirection 3 [-5, -10, -15, 0],
      PrecomputedDirection 0 [0, 0, 0, 0], PrecomputedDirection 0 [0, 0, 0, 0], PrecomputedDirection 0 [0, 0, 0, 0], PrecomputedDirection 0 [0, 0, 0, 0]],
    MoveTableEntry 4 [
      PrecomputedDirection 4 [1, 2, 3, 4], PrecomputedDirection 0 [0, 0, 0, 0], PrecomputedDirection 0 [0, 0, 0, 0], PrecomputedDirection 4 [-5, -10, -15, -20],
      PrecomputedDirection 0 [0, 0, 0, 0], PrecomputedDirection 0 [0, 0, 0, 0], PrecomputedDirection 0 [0, 0, 0, 0], PrecomputedDirection 0 [0, 0, 0, 0]],
    MoveTableEntry 4 [
      PrecomputedDirection 3 [1, 2, 3, 0], PrecomputedDirection 1 [-1, 0, 0, 0], PrecomputedDirection 0 [0, 0, 0, 0], PrecomputedDirection 4 [-5, -10, -15, -20],
      PrecomputedDirection 0 [0, 0, 0, 0], PrecomputedDirection 0 [0, 0, 0, 0], PrecomputedDirection 0 [0, 0, 0, 0], PrecomputedDirection 0 [0, 0, 0, 0]],
    MoveTableEntry 4 [
      PrecomputedDirection 2 [1, 2, 0, 0], PrecomputedDirection 2 [-1, -2, 0, 0], PrecomputedDirection 0 [0, 0, 0, 0], PrecomputedDirection 4 [-5, -10, -15, -20],
      PrecomputedDirection 0 [0, 0, 0, 0], PrecomputedDirection 0 [0, 0, 0, 0], PrecomputedDirection 0 [0, 0, 0, 0], PrecomputedDirection 0 [0, 0, 0, 0]],
    MoveTableEntry 4 [
      PrecomputedDirection 1 [1, 0, 0, 0], PrecomputedDirection 3 [-1, -2, -3, 0], PrecomputedDirection 0 [0, 0, 0, 0], PrecomputedDirection 4 [-5, -10, -15, -20],
      PrecomputedDirection 0 [0, 0, 0, 0], PrecomputedDirection 0 [0, 0, 0, 0], PrecomputedDirection 0 [0, 0, 0, 0], PrecomputedDirection 0 [0, 0, 0, 0]],
    MoveTableEntry 4 [
      PrecomputedDirection 0 [0, 0, 0, 0], PrecomputedDirection 4 [-1, -2, -3, -4], PrecomputedDirection 0 [0, 0, 0, 0], PrecomputedDirection 4 [-5, -10, -15, -20],
      PrecomputedDirection 0 [0, 0, 0, 0], PrecomputedDirection 0 [0, 0, 0, 0], PrecomputedDirection 0 [0, 0, 0, 0], PrecomputedDirection 0 [0, 0, 0, 0]]]"

definition kMoveTable_Black :: "move_table_entry list" where
  "kMoveTable_Black = [
    MoveTableEntry 4 [
      PrecomputedDirection 4 [6, 12, 18, 24], PrecomputedDirection 0 [0, 0, 0, 0], PrecomputedDirection 0 [0, 0, 0, 0], PrecomputedDirection 0 [0, 0, 0, 0],
      PrecomputedDirection 0 [0, 0, 0, 0], PrecomputedDirection 0 [0, 0, 0, 0], PrecomputedDirection 0 [0, 0, 0, 0], PrecomputedDirection 0 [0, 0, 0, 0]],
    MoveTableEntry 4 [
      PrecomputedDirection 3 [6, 12, 18, 0], PrecomputedDirection 0 [0, 0, 0, 0], PrecomputedDirection 1 [4, 0, 0, 0], PrecomputedDirection 0 [0, 0, 0, 0],
      PrecomputedDirection 0 [0, 0, 0, 0], PrecomputedDirection 0 [0, 0, 0, 0], PrecomputedDirection 0 [0, 0, 0, 0], PrecomputedDirection 0 [0, 0, 0, 0]],
    MoveTableEntry 4 [
      PrecomputedDirection 2 [6, 12, 0, 0], PrecomputedDirection 0 [0, 0, 0, 0], PrecomputedDirection 2 [4, 8, 0, 0], PrecomputedDirection 0 [0, 0, 0, 0],
      PrecomputedDirection 0 [0, 0, 0, 0], PrecomputedDirection 0 [0, 0, 0, 0], PrecomputedDirection 0 [0, 0, 0, 0], PrecomputedDirection 0 [0, 0, 0, 0]],
    MoveTableEntry 4 [
      PrecomputedDirection 1 [6, 0, 0, 0], PrecomputedDirection 0 [0, 0, 0, 0], PrecomputedDirection 3 [4, 8, 12, 0], PrecomputedDirection 0 [0, 0, 0, 0],
      PrecomputedDirection 0 [0, 0, 0, 0], PrecomputedDirection 0 [0, 0, 0, 0], PrecomputedDirection 0 [0, 0, 0, 0], PrecomputedDirection 0 [0, 0, 0, 0]],
    MoveTableEntry 4 [
      PrecomputedDirection 0 [0, 0, 0, 0], PrecomputedDirection 0 [0, 0, 0, 0], PrecomputedDirection 4 [4, 8, 12, 16], PrecomputedDirection 0 [0, 0, 0, 0],
      PrecomputedDirection 0 [0, 0, 0, 0], PrecomputedDirection 0 [0, 0, 0, 0], PrecomputedDirection 0 [0, 0, 0, 0], PrecomputedDirection 0 [0, 0, 0, 0]],
    MoveTableEntry 4 [
      PrecomputedDirection 3 [6, 12, 18, 0], PrecomputedDirection 1 [-4, 0, 0, 0], PrecomputedDirection 0 [0, 0, 0, 0], PrecomputedDirection 0 [0, 0, 0, 0],
      PrecomputedDirection 0 [0, 0, 0, 0], PrecomputedDirection 0 [0, 0, 0, 0], PrecomputedDirection 0 [0, 0, 0, 0], PrecomputedDirection 0 [0, 0, 0, 0]],
    MoveTableEntry 4 [
      PrecomputedDirection 3 [6, 12, 18, 0], PrecomputedDirection 1 [-4, 0, 0, 0], PrecomputedDirection 1 [4, 0, 0, 0], PrecomputedDirection 1 [-6, 0, 0, 0],
      PrecomputedDirection 0 [0, 0, 0, 0], PrecomputedDirection 0 [0, 0, 0, 0], PrecomputedDirection 0 [0, 0, 0, 0], PrecomputedDirection 0 [0, 0, 0, 0]],
    MoveTableEntry 4 [
      PrecomputedDirection 2 [6, 12, 0, 0], PrecomputedDirection 1 [-4, 0, 0, 0], PrecomputedDirection 2 [4, 8, 0, 0], PrecomputedDirection 1 [-6, 0, 0, 0],
      PrecomputedDirection 0 [0, 0, 0, 0], PrecomputedDirection 0 [0, 0, 0, 0], PrecomputedDirection 0 [0, 0, 0, 0], PrecomputedDirection 0 [0, 0, 0, 0]],
    MoveTableEntry 4 [
      PrecomputedDirection 1 [6, 0, 0, 0], PrecomputedDirection 1 [-4, 0, 0, 0], PrecomputedDirection 3 [4, 8, 12, 0], PrecomputedDirection 1 [-6, 0, 0, 0],
      PrecomputedDirection 0 [0, 0, 0, 0], PrecomputedDirection 0 [0, 0, 0, 0], PrecomputedDirection 0 [0, 0, 0, 0], PrecomputedDirection 0 [0, 0, 0, 0]],
    MoveTableEntry 4 [
      PrecomputedDirection 0 [0, 0, 0, 0], PrecomputedDirection 0 [0, 0, 0, 0], PrecomputedDirection 3 [4, 8, 12, 0], PrecomputedDirection 1 [-6, 0, 0, 0],
      PrecomputedDirection 0 [0, 0, 0, 0], PrecomputedDirection 0 [0, 0, 0, 0], PrecomputedDirection 0 [0, 0, 0, 0], PrecomputedDirection 0 [0, 0, 0, 0]],
    MoveTableEntry 4 [
      PrecomputedDirection 2 [6, 12, 0, 0], PrecomputedDirection 2 [-4, -8, 0, 0], PrecomputedDirection 0 [0, 0, 0, 0], PrecomputedDirection 0 [0, 0, 0, 0],
      PrecomputedDirection 0 [0, 0, 0, 0], PrecomputedDirection 0 [0, 0, 0, 0], PrecomputedDirection 0 [0, 0, 0, 0], PrecomputedDirection 0 [0, 0, 0, 0]],
    MoveTableEntry 4 [
      PrecomputedDirection 2 [6, 12, 0, 0], PrecomputedDirection 2 [-4, -8, 0, 0], PrecomputedDirection 1 [4, 0, 0, 0], PrecomputedDirection 1 [-6, 0, 0, 0],
      PrecomputedDirection 0 [0, 0, 0, 0], PrecomputedDirection 0 [0, 0, 0, 0], PrecomputedDirection 0 [0, 0, 0, 0], PrecomputedDirection 0 [0, 0, 0, 0]],
    MoveTableEntry 4 [
      PrecomputedDirection 2 [6, 12, 0, 0], PrecomputedDirection 2 [-4, -8, 0, 0], PrecomputedDirection 2 [4, 8, 0, 0], PrecomputedDirection 2 [-6, -12, 0, 0],
      PrecomputedDirection 0 [0, 0, 0, 0], PrecomputedDirection 0 [0, 0, 0, 0], PrecomputedDirection 0 [0, 0, 0, 0], PrecomputedDirection 0 [0, 0, 0, 0]],
    MoveTableEntry 4 [
      PrecomputedDirection 1 [6, 0, 0, 0], PrecomputedDirection 1 [-4, 0, 0, 0], PrecomputedDirection 2 [4, 8, 0, 0], PrecomputedDirection 2 [-6, -12, 0, 0],
      PrecomputedDirection 0 [0, 0, 0, 0], PrecomputedDirection 0 [0, 0, 0, 0], PrecomputedDirection 0 [0, 0, 0, 0], PrecomputedDirection 0 [0, 0, 0, 0]],
    MoveTableEntry 4 [
      PrecomputedDirection 0 [0, 0, 0, 0], PrecomputedDirection 0 [0, 0, 0, 0], PrecomputedDirection 2 [4, 8, 0, 0], PrecomputedDirection 2 [-6, -12, 0, 0],
      PrecomputedDirection 0 [0, 0, 0, 0], PrecomputedDirection 0 [0, 0, 0, 0], PrecomputedDirection 0 [0, 0, 0, 0], PrecomputedDirection 0 [0, 0, 0, 0]],
    MoveTableEntry 4 [
      PrecomputedDirection 1 [6, 0, 0, 0], PrecomputedDirection 3 [-4, -8, -12, 0], PrecomputedDirection 0 [0, 0, 0, 0], PrecomputedDirection 0 [0, 0, 0, 0],
      PrecomputedDirection 0 [0, 0, 0, 0], PrecomputedDirection 0 [0, 0, 0, 0], PrecomputedDirection 0 [0, 0, 0, 0], PrecomputedDirection 0 [0, 0, 0, 0]],
    MoveTableEntry 4 [
      PrecomputedDirection 1 [6, 0, 0, 0], PrecomputedDirection 3 [-4, -8, -12, 0], PrecomputedDirection 1 [4, 0, 0, 0], PrecomputedDirection 1 [-6, 0, 0, 0],
      PrecomputedDirection 0 [0, 0, 0, 0], PrecomputedDirection 0 [0, 0, 0, 0], PrecomputedDirection 0 [0, 0, 0, 0], PrecomputedDirection 0 [0, 0, 0, 0]],
    MoveTableEntry 4 [
      PrecomputedDirection 1 [6, 0, 0, 0], PrecomputedDirection 2 [-4, -8, 0, 0], PrecomputedDirection 1 [4, 0, 0, 0], PrecomputedDirection 2 [-6, -12, 0, 0],
      PrecomputedDirection 0 [0, 0, 0, 0], PrecomputedDirection 0 [0, 0, 0, 0], PrecomputedDirection 0 [0, 0, 0, 0], PrecomputedDirection 0 [0, 0, 0, 0]],
    MoveTableEntry 4 [
      PrecomputedDirection 1 [6, 0, 0, 0], PrecomputedDirection 1 [-4, 0, 0, 0], PrecomputedDirection 1 [4, 0, 0, 0], PrecomputedDirection 3 [-6, -12, -18, 0],
      PrecomputedDirection 0 [0, 0, 0, 0], PrecomputedDirection 0 [0, 0, 0, 0], PrecomputedDirection 0 [0, 0, 0, 0], PrecomputedDirection 0 [0, 0, 0, 0]],
    MoveTableEntry 4 [
      PrecomputedDirection 0 [0, 0, 0, 0], PrecomputedDirection 0 [0, 0, 0, 0], PrecomputedDirection 1 [4, 0, 0, 0], PrecomputedDirection 3 [-6, -12, -18, 0],
      PrecomputedDirection 0 [0, 0, 0, 0], PrecomputedDirection 0 [0, 0, 0, 0], PrecomputedDirection 0 [0, 0, 0, 0], PrecomputedDirection 0 [0, 0, 0, 0]],
    MoveTableEntry 4 [
      PrecomputedDirection 0 [0, 0, 0, 0], PrecomputedDirection 4 [-4, -8, -12, -16], PrecomputedDirection 0 [0, 0, 0, 0], PrecomputedDirection 0 [0, 0, 0, 0],
      PrecomputedDirection 0 [0, 0, 0, 0], PrecomputedDirection 0 [0, 0, 0, 0], PrecomputedDirection 0 [0, 0, 0, 0], PrecomputedDirection 0 [0, 0, 0, 0]],
    MoveTableEntry 4 [
      PrecomputedDirection 0 [0, 0, 0, 0], PrecomputedDirection 3 [-4, -8, -12, 0], PrecomputedDirection 0 [0, 0, 0, 0], PrecomputedDirection 1 [-6, 0, 0, 0],
      PrecomputedDirection 0 [0, 0, 0, 0], PrecomputedDirection 0 [0, 0, 0, 0], PrecomputedDirection 0 [0, 0, 0, 0], PrecomputedDirection 0 [0, 0, 0, 0]],
    MoveTableEntry 4 [
      PrecomputedDirection 0 [0, 0, 0, 0], PrecomputedDirection 2 [-4, -8, 0, 0], PrecomputedDirection 0 [0, 0, 0, 0], PrecomputedDirection 2 [-6, -12, 0, 0],
      PrecomputedDirection 0 [0, 0, 0, 0], PrecomputedDirection 0 [0, 0, 0, 0], PrecomputedDirection 0 [0, 0, 0, 0], PrecomputedDirection 0 [0, 0, 0, 0]],
    MoveTableEntry 4 [
      PrecomputedDirection 0 [0, 0, 0, 0], PrecomputedDirection 1 [-4, 0, 0, 0], PrecomputedDirection 0 [0, 0, 0, 0], PrecomputedDirection 3 [-6, -12, -18, 0],
      PrecomputedDirection 0 [0, 0, 0, 0], PrecomputedDirection 0 [0, 0, 0, 0], PrecomputedDirection 0 [0, 0, 0, 0], PrecomputedDirection 0 [0, 0, 0, 0]],
    MoveTableEntry 4 [
      PrecomputedDirection 0 [0, 0, 0, 0], PrecomputedDirection 0 [0, 0, 0, 0], PrecomputedDirection 0 [0, 0, 0, 0], PrecomputedDirection 4 [-6, -12, -18, -24],
      PrecomputedDirection 0 [0, 0, 0, 0], PrecomputedDirection 0 [0, 0, 0, 0], PrecomputedDirection 0 [0, 0, 0, 0], PrecomputedDirection 0 [0, 0, 0, 0]]]"

definition kMoveTable_Gray :: "move_table_entry list" where
  "kMoveTable_Gray = [
    MoveTableEntry 8 [
      PrecomputedDirection 4 [1, 2, 3, 4], PrecomputedDirection 0 [0, 0, 0, 0], PrecomputedDirection 4 [5, 10, 15, 20], PrecomputedDirection 0 [0, 0, 0, 0],
      PrecomputedDirection 4 [6, 12, 18, 24], PrecomputedDirection 0 [0, 0, 0, 0], PrecomputedDirection 0 [0, 0, 0, 0], PrecomputedDirection 0 [0, 0, 0, 0]],
    MoveTableEntry 8 [
      PrecomputedDirection 3 [1, 2, 3, 0], PrecomputedDirection 1 [-1, 0, 0, 0], PrecomputedDirection 4 [5, 10, 15, 20], PrecomputedDirection 0 [0, 0, 0, 0],
      PrecomputedDirection 3 [6, 12, 18, 0], PrecomputedDirection 0 [0, 0, 0, 0], PrecomputedDirection 1 [4, 0, 0, 0], PrecomputedDirection 0 [0, 0, 0, 0]],
    MoveTableEntry 8 [
      PrecomputedDirection 2 [1, 2, 0, 0], PrecomputedDirection 2 [-1, -2, 0, 0], PrecomputedDirection 4 [5, 10, 15, 20], PrecomputedDirection 0 [0, 0, 0, 0],
      PrecomputedDirection 2 [6, 12, 0, 0], PrecomputedDirection 0 [0, 0, 0, 0], PrecomputedDirection 2 [4, 8, 0, 0], PrecomputedDirection 0 [0, 0, 0, 0]],
    MoveTableEntry 8 [
      PrecomputedDirection 1 [1, 0, 0, 0], PrecomputedDirection 3 [-1, -2, -3, 0], PrecomputedDirection 4 [5, 10, 15, 20], PrecomputedDirection 0 [0, 0, 0, 0],
      PrecomputedDirection 1 [6, 0, 0, 0], PrecomputedDirection 0 [0, 0, 0, 0], PrecomputedDirection 3 [4, 8, 12, 0], PrecomputedDirection 0 [0, 0, 0, 0]],
    MoveTableEntry 8 [
      PrecomputedDirection 0 [0, 0, 0, 0], PrecomputedDirection 4 [-1, -2, -3, -4], PrecomputedDirection 4 [5, 10, 15, 20], PrecomputedDirection 0 [0, 0, 0, 0],
      PrecomputedDirection 0 [0, 0, 0, 0], PrecomputedDirection 0 [0, 0, 0, 0], PrecomputedDirection 4 [4, 8, 12, 16], PrecomputedDirection 0 [0, 0, 0, 0]],
    MoveTableEntry 8 [
      PrecomputedDirection 4 [1, 2, 3, 4], PrecomputedDirection 0 [0, 0, 0, 0], PrecomputedDirection 3 [5, 10, 15, 0], PrecomputedDirection 1 [-5, 0, 0, 0],
      PrecomputedDirection 3 [6, 12, 18, 0], PrecomputedDirection 1 [-4, 0, 0, 0], PrecomputedDirection 0 [0, 0, 0, 0], PrecomputedDirection 0 [0, 0, 0, 0]],
    MoveTableEntry 8 [
      PrecomputedDirection 3 [1, 2, 3, 0], PrecomputedDirection 1 [-1, 0, 0, 0], PrecomputedDirection 3 [5, 10, 15, 0], PrecomputedDirection 1 [-5, 0, 0, 0],
      PrecomputedDirection 3 [6, 12, 18, 0], PrecomputedDirection 1 [-4, 0, 0, 0], PrecomputedDirection 1 [4, 0, 0, 0], PrecomputedDirection 1 [-6, 0, 0, 0]],
    MoveTableEntry 8 [
      PrecomputedDirection 2 [1, 2, 0, 0], PrecomputedDirection 2 [-1, -2, 0, 0], PrecomputedDirection 3 [5, 10, 15, 0], PrecomputedDirection 1 [-5, 0, 0, 0],
      PrecomputedDirection 2 [6, 12, 0, 0], PrecomputedDirection 1 [-4, 0, 0, 0], PrecomputedDirection 2 [4, 8, 0, 0], PrecomputedDirection 1 [-6, 0, 0, 0]],
    MoveTableEntry 8 [
      PrecomputedDirection 1 [1, 0, 0, 0], PrecomputedDirection 3 [-1, -2, -3, 0], PrecomputedDirection 3 [5, 10, 15, 0], PrecomputedDirection 1 [-5, 0, 0, 0],
      PrecomputedDirection 1 [6, 0, 0, 0], PrecomputedDirection 1 [-4, 0, 0, 0], PrecomputedDirection 3 [4, 8, 12, 0], PrecomputedDirection 1 [-6, 0, 0, 0]],
    MoveTableEntry 8 [
      PrecomputedDirection 0 [0, 0, 0, 0], PrecomputedDirection 4 [-1, -2, -3, -4], PrecomputedDirection 3 [5, 10, 15, 0], PrecomputedDirection 1 [-5, 0, 0, 0],
      PrecomputedDirection 0 [0, 0, 0, 0], PrecomputedDirection 0 [0, 0, 0, 0], PrecomputedDirection 3 [4, 8, 12, 0], PrecomputedDirection 1 [-6, 0, 0, 0]],
    MoveTableEntry 8 [
      PrecomputedDirection 4 [1, 2, 3, 4], PrecomputedDirection 0 [0, 0, 0, 0], PrecomputedDirection 2 [5, 10, 0, 0], PrecomputedDirection 2 [-5, -10, 0, 0],
      PrecomputedDirection 2 [6, 12, 0, 0], PrecomputedDirection 2 [-4, -8, 0, 0], PrecomputedDirection 0 [0, 0, 0, 0], PrecomputedDirection 0 [0, 0, 0, 0]],
    MoveTableEntry 8 [
      PrecomputedDirection 3 [1, 2, 3, 0], PrecomputedDirection 1 [-1, 0, 0, 0], PrecomputedDirection 2 [5, 10, 0, 0], PrecomputedDirection 2 [-5, -10, 0, 0],
      PrecomputedDirection 2 [6, 12, 0, 0], PrecomputedDirection 2 [-4, -8, 0, 0], PrecomputedDirection 1 [4, 0, 0, 0], PrecomputedDirection 1 [-6, 0, 0, 0]],
    MoveTableEntry 8 [
      PrecomputedDirection 2 [1, 2, 0, 0], PrecomputedDirection 2 [-1, -2, 0, 0], PrecomputedDirection 2 [5, 10, 0, 0], PrecomputedDirection 2 [-5, -10, 0, 0],
      PrecomputedDirection 2 [6, 12, 0, 0], PrecomputedDirection 2 [-4, -8, 0, 0], PrecomputedDirection 2 [4, 8, 0, 0], PrecomputedDirection 2 [-6, -12, 0, 0]],
    MoveTableEntry 8 [
      PrecomputedDirection 1 [1, 0, 0, 0], PrecomputedDirection 3 [-1, -2, -3, 0], PrecomputedDirection 2 [5, 10, 0, 0], PrecomputedDirection 2 [-5, -10, 0, 0],
      PrecomputedDirection 1 [6, 0, 0, 0], PrecomputedDirection 1 [-4, 0, 0, 0], PrecomputedDirection 2 [4, 8, 0, 0], PrecomputedDirection 2 [-6, -12, 0, 0]],
    MoveTableEntry 8 [
      PrecomputedDirection 0 [0, 0, 0, 0], PrecomputedDirection 4 [-1, -2, -3, -4], PrecomputedDirection 2 [5, 10, 0, 0], PrecomputedDirection 2 [-5, -10, 0, 0],
      PrecomputedDirection 0 [0, 0, 0, 0], PrecomputedDirection 0 [0, 0, 0, 0], PrecomputedDirection 2 [4, 8, 0, 0], PrecomputedDirection 2 [-6, -12, 0, 0]],
    MoveTableEntry 8 [
      PrecomputedDirection 4 [1, 2, 3, 4], PrecomputedDirection 0 [0, 0, 0, 0], PrecomputedDirection 1 [5, 0, 0, 0], PrecomputedDirection 3 [-5, -10, -15, 0],
      PrecomputedDirection 1 [6, 0, 0, 0], PrecomputedDirection 3 [-4, -8, -12, 0], PrecomputedDirection 0 [0, 0, 0, 0], PrecomputedDirection 0 [0, 0, 0, 0]],
    MoveTableEntry 8 [
      PrecomputedDirection 3 [1, 2, 3, 0], PrecomputedDirection 1 [-1, 0, 0, 0], PrecomputedDirection 1 [5, 0, 0, 0], PrecomputedDirection 3 [-5, -10, -15, 0],
      PrecomputedDirection 1 [6, 0, 0, 0], PrecomputedDirection 3 [-4, -8, -12, 0], PrecomputedDirection 1 [4, 0, 0, 0], PrecomputedDirection 1 [-6, 0, 0, 0]],
    MoveTableEntry 8 [
      PrecomputedDirection 2 [1, 2, 0, 0], PrecomputedDirection 2 [-1, -2, 0, 0], PrecomputedDirection 1 [5, 0, 0, 0], PrecomputedDirection 3 [-5, -10, -15, 0],
      PrecomputedDirection 1 [6, 0, 0, 0], PrecomputedDirection 2 [-4, -8, 0, 0], PrecomputedDirection 1 [4, 0, 0, 0], PrecomputedDirection 2 [-6, -12, 0, 0]],
    MoveTableEntry 8 [
      PrecomputedDirection 1 [1, 0, 0, 0], PrecomputedDirection 3 [-1, -2, -3, 0], PrecomputedDirection 1 [5, 0, 0, 0], PrecomputedDirection 3 [-5, -10, -15, 0],
      PrecomputedDirection 1 [6, 0, 0, 0], PrecomputedDirection 1 [-4, 0, 0, 0], PrecomputedDirection 1 [4, 0, 0, 0], PrecomputedDirection 3 [-6, -12, -18, 0]],
    MoveTableEntry 8 [
      PrecomputedDirection 0 [0, 0, 0, 0], PrecomputedDirection 4 [-1, -2, -3, -4], PrecomputedDirection 1 [5, 0, 0, 0], PrecomputedDirection 3 [-5, -10, -15, 0],
      PrecomputedDirection 0 [0, 0, 0, 0], PrecomputedDirection 0 [0, 0, 0, 0], PrecomputedDirection 1 [4, 0, 0, 0], PrecomputedDirection 3 [-6, -12, -18, 0]],
    MoveTableEntry 8 [
      PrecomputedDirection 4 [1, 2, 3, 4], PrecomputedDirection 0 [0, 0, 0, 0], PrecomputedDirection 0 [0, 0, 0, 0], PrecomputedDirection 4 [-5, -10, -15, -20],
      PrecomputedDirection 0 [0, 0, 0, 0], PrecomputedDirection 4 [-4, -8, -12, -16], PrecomputedDirection 0 [0, 0, 0, 0], PrecomputedDirection 0 [0, 0, 0, 0]],
    MoveTableEntry 8 [
      PrecomputedDirection 3 [1, 2, 3, 0], PrecomputedDirection 1 [-1, 0, 0, 0], PrecomputedDirection 0 [0, 0, 0, 0], PrecomputedDirection 4 [-5, -10, -15, -20],
      PrecomputedDirection 0 [0, 0, 0, 0], PrecomputedDirection 3 [-4, -8, -12, 0], PrecomputedDirection 0 [0, 0, 0, 0], PrecomputedDirection 1 [-6, 0, 0, 0]],
    MoveTableEntry 8 [
      PrecomputedDirection 2 [1, 2, 0, 0], PrecomputedDirection 2 [-1, -2, 0, 0], PrecomputedDirection 0 [0, 0, 0, 0], PrecomputedDirection 4 [-5, -10, -15, -20],
      PrecomputedDirection 0 [0, 0, 0, 0], PrecomputedDirection 2 [-4, -8, 0, 0], PrecomputedDirection 0 [0, 0, 0, 0], PrecomputedDirection 2 [-6, -12, 0, 0]],
    MoveTableEntry 8 [
      PrecomputedDirection 1 [1, 0, 0, 0], PrecomputedDirection 3 [-1, -2, -3, 0], PrecomputedDirection 0 [0, 0, 0, 0], PrecomputedDirection 4 [-5, -10, -15, -20],
      PrecomputedDirection 0 [0, 0, 0, 0], PrecomputedDirection 1 [-4, 0, 0, 0], PrecomputedDirection 0 [0, 0, 0, 0], PrecomputedDirection 3 [-6, -12, -18, 0]],
    MoveTableEntry 8 [
      PrecomputedDirection 0 [0, 0, 0, 0], PrecomputedDirection 4 [-1, -2, -3, -4], PrecomputedDirection 0 [0, 0, 0, 0], PrecomputedDirection 4 [-5, -10, -15, -20],
      PrecomputedDirection 0 [0, 0, 0, 0], PrecomputedDirection 0 [0, 0, 0, 0], PrecomputedDirection 0 [0, 0, 0, 0], PrecomputedDirection 4 [-6, -12, -18, -24]]]"
definition kMoveTable :: "move_table_entry list list" where
  "kMoveTable = [kMoveTable_None, kMoveTable_Black, kMoveTable_Gray]"

section \<open>Rules engine\<close>

text \<open>
  \<^verbatim>\<open>Rules::legal_moves\<close>, first phase. The inner loop over \<open>step\<close> is the recursion
  \<open>ray_walk\<close>: it carries the step index and the flag \<open>encountered_friend\<close> and consumes
  the first \<open>step_count\<close> offsets of the direction. C++ \<open>/\<close> and \<open>%\<close> truncate, hence
  \<open>sdiv\<close> and \<open>smod\<close>.
\<close>

definition base_move :: "int \<Rightarrow> int \<Rightarrow> int \<Rightarrow> int \<Rightarrow> Move" where
  "base_move x y tx' ty' = Move_default\<lparr>sx := x, sy := y, dx := tx', dy := ty', place_tile := False\<rparr>"

fun ray_walk :: "Board \<Rightarrow> Player \<Rightarrow> int \<Rightarrow> int \<Rightarrow> int \<Rightarrow> bool \<Rightarrow> nat \<Rightarrow> int list \<Rightarrow> Move list" where
  "ray_walk b p x y origin_index encountered_friend step [] = []"
| "ray_walk b p x y origin_index encountered_friend step (r # rs) =
     (let target_index = origin_index + r;
          ty' = target_index sdiv BOARD_W;
          tx' = target_index smod BOARD_W;
          cell = board_at b tx' ty'
      in if occupant cell = NoPlayer then
           (if \<not> encountered_friend then (if step = 0 then [base_move x y tx' ty'] else [])
            else [base_move x y tx' ty'])
         else if occupant cell = p then ray_walk b p x y origin_index True (Suc step) rs
         else [])"

definition dir_moves :: "Board \<Rightarrow> Player \<Rightarrow> int \<Rightarrow> int \<Rightarrow> int \<Rightarrow> precomputed_direction \<Rightarrow> Move list" where
  "dir_moves b p x y origin_index dir =
     (if step_count dir = 0 then []
      else ray_walk b p x y origin_index False 0 (take (step_count dir) (rel_index dir)))"

definition piece_moves :: "Board \<Rightarrow> Player \<Rightarrow> int \<Rightarrow> int \<Rightarrow> Move list" where
  "piece_moves b p x y =
     (if occupant (board_at b x y) \<noteq> p then []
      else
        let tile_index = tile_int (tile (board_at b x y));
            origin_index = y * BOARD_W + x;
            table_entry = kMoveTable ! nat tile_index ! nat origin_index
        in concat (map (dir_moves b p x y origin_index)
                     (take (dir_count table_entry) (dirs table_entry))))"

definition base_moves :: "GameState \<Rightarrow> Move list" where
  "base_moves s =
     concat (map (\<lambda>y. concat (map (\<lambda>x. piece_moves (board s) (current_player s) x y)
                                 [0 .. BOARD_W - 1]))
               [0 .. BOARD_H - 1])"

text \<open>Second phase: the placement variants of one base move for one tile kind.\<close>

definition placements :: "Board \<Rightarrow> Move \<Rightarrow> TileType \<Rightarrow> Move list" where
  "placements b base t =
     concat (map (\<lambda>y. concat (map (\<lambda>x.
         if occupant (board_at b x y) = NoPlayer \<and> tile (board_at b x y) = TileNone
         then [base\<lparr>place_tile := True, tx := x, ty := y, mtile := t\<rparr>] else [])
       [0 .. BOARD_W - 1])) [0 .. BOARD_H - 1])"

definition expand_move :: "GameState \<Rightarrow> Move \<Rightarrow> Move list" where
  "expand_move s base =
     (let b = board s; inv = inventory s (current_player s)
      in [base]
         @ (if black inv > 0 then placements b base TileBlack else [])
         @ (if gray inv > 0 then placements b base TileGray else []))"

definition legal_moves :: "GameState \<Rightarrow> Move list" where
  "legal_moves s = concat (map (expand_move s) (base_moves s))"

text \<open>The cell a ray walk inspects at an offset, as \<open>ray_walk\<close> computes it.\<close>

definition target_x :: "int \<Rightarrow> int \<Rightarrow> int" where
  "target_x origin_index r = (origin_index + r) smod BOARD_W"

definition target_y :: "int \<Rightarrow> int \<Rightarrow> int" where
  "target_y origin_index r = (origin_index + r) sdiv BOARD_W"

definition ray_cell :: "Board \<Rightarrow> int \<Rightarrow> int \<Rightarrow> Cell" where
  "ray_cell b origin_index r = board_at b (target_x origin_index r) (target_y origin_index r)"

text \<open>
  The step of a ray at which a walk may emit: every earlier cell of the ray holds a piece of
  the mover, and the cell itself is empty. \<open>landing_move\<close> is the base move to that cell.
\<close>

definition landing :: "Board \<Rightarrow> Player \<Rightarrow> int \<Rightarrow> int list \<Rightarrow> nat \<Rightarrow> bool" where
  "landing b p origin_index ray k =
     (k < length ray
      \<and> (\<forall>j < k. occupant (ray_cell b origin_index (ray ! j)) = p)
      \<and> occupant (ray_cell b origin_index (ray ! k)) = NoPlayer)"

definition landing_move :: "int \<Rightarrow> int \<Rightarrow> int \<Rightarrow> Move" where
  "landing_move x y r =
     base_move x y (target_x (y * BOARD_W + x) r) (target_y (y * BOARD_W + x) r)"

text \<open>States used as concrete inputs: a lone Black piece in the centre, and the jump position.\<close>

definition lone_black_state :: GameState where
  "lone_black_state =
     initial_state\<lparr>board := (replicate 25 empty_cell)[12 := \<lparr>occupant = Black, tile = TileNone\<rparr>]\<rparr>"

definition jump_state :: GameState where
  "jump_state =
     initial_state\<lparr>board := (replicate 25 empty_cell)
        [12 := \<lparr>occupant = Black, tile = TileNone\<rparr>, 17 := \<lparr>occupant = Black, tile = TileNone\<rparr>]\<rparr>"

definition tile_available :: "GameState \<Rightarrow> TileType \<Rightarrow> bool" where
  "tile_available s t =
     (t = TileBlack \<and> black (inventory s (current_player s)) > 0
      \<or> t = TileGray \<and> gray (inventory s (current_player s)) > 0)"

text \<open>A move with its placement fields reset: the base move a variant was made from.\<close>

definition strip_placement :: "Move \<Rightarrow> Move" where
  "strip_placement m = m\<lparr>place_tile := False, tx := tx Move_default, ty := ty Move_default,
     mtile := mtile Move_default\<rparr>"

section \<open>Board geometry of the table\<close>

text \<open>
  What the table is meant to hold: from the cell \<open>(x, y)\<close>, the cells at steps
  \<open>1, 2, 3, \<dots>\<close> in the direction \<open>(dx, dy)\<close> while they stay on the board, each
  written as the difference of linear indices.
\<close>

definition on_board :: "int \<Rightarrow> int \<Rightarrow> bool" where
  "on_board x y = (0 \<le> x \<and> x < BOARD_W \<and> 0 \<le> y \<and> y < BOARD_H)"

definition geometric_ray :: "int \<Rightarrow> int \<Rightarrow> int \<times> int \<Rightarrow> int list" where
  "geometric_ray x y d =
     map (\<lambda>k. k * (snd d * BOARD_W + fst d))
       (takeWhile (\<lambda>k. on_board (x + k * fst d) (y + k * snd d)) [1 .. 4])"

definition orthogonal_dirs :: "(int \<times> int) list" where
  "orthogonal_dirs = [(1, 0), (-1, 0), (0, 1), (0, -1)]"

definition diagonal_dirs :: "(int \<times> int) list" where
  "diagonal_dirs = [(1, 1), (1, -1), (-1, 1), (-1, -1)]"

fun tile_dirs :: "TileType \<Rightarrow> (int \<times> int) list" where
  "tile_dirs TileNone = orthogonal_dirs"
| "tile_dirs TileBlack = diagonal_dirs"
| "tile_dirs TileGray = orthogonal_dirs @ diagonal_dirs"

text \<open>The rays the rules engine reads from an entry: \<open>dir_count\<close> directions, \<open>step_count\<close> offsets each.\<close>

definition entry_rays :: "move_table_entry \<Rightarrow> int list list" where
  "entry_rays e = map (\<lambda>d. take (step_count d) (rel_index d)) (take (dir_count e) (dirs e))"

definition table_rays :: "TileType \<Rightarrow> nat \<Rightarrow> int list list" where
  "table_rays t origin = entry_rays (kMoveTable ! nat (tile_int t) ! origin)"

definition table_entry_ok :: "TileType \<Rightarrow> nat \<Rightarrow> bool" where
  "table_entry_ok t origin =
     (table_rays t origin =
        map (geometric_ray (int origin mod BOARD_W) (int origin div BOARD_W)) (tile_dirs t))"

section \<open>Symmetry\<close>

text \<open>
  Modelled from the spec: \<^verbatim>\<open>contrast/symmetry.hpp\<close> (\<^verbatim>\<open>SymmetryOps::transform_board\<close>,
  \<^verbatim>\<open>SymmetryOps::get_canonical_symmetry\<close>) is missing from the sources. Section 4.D: the
  horizontal flip \<open>x \<mapsto> W - 1 - x\<close>; the canonical board is the lexicographically smaller
  of the board and its flip, read as the sequence of cell codes, identity on a tie. The
  symmetry tests use the two symmetries \<open>Identity\<close> and \<open>FlipH\<close> in the same way.
\<close>

datatype Symmetry = Identity | FlipH

definition encode_cell :: "Cell \<Rightarrow> int" where
  "encode_cell c = player_int (occupant c) * 3 + tile_int (tile c)"

definition board_codes :: "Board \<Rightarrow> int list" where
  "board_codes b =
     concat (map (\<lambda>y. map (\<lambda>x. encode_cell (board_at b x y)) [0 .. BOARD_W - 1]) [0 .. BOARD_H - 1])"

text \<open>Modelled from the spec: the flip, \<open>flipped.at(x, y) = original.at(W - 1 - x, y)\<close>.\<close>

definition flip_horizontal :: "Board \<Rightarrow> Board" where
  "flip_horizontal b =
     concat (map (\<lambda>y. map (\<lambda>x. board_at b (BOARD_W - 1 - x) y) [0 .. BOARD_W - 1]) [0 .. BOARD_H - 1])"

fun transform_board :: "Board \<Rightarrow> Symmetry \<Rightarrow> Board" where
  "transform_board b Identity = b"
| "transform_board b FlipH = flip_horizontal b"

text \<open>The linear index of the mirror image of cell \<open>i\<close>.\<close>

definition flip_index :: "nat \<Rightarrow> nat" where
  "flip_index i = (i div 5) * 5 + (4 - i mod 5)"

text \<open>
  Modelled from the spec: \<^verbatim>\<open>get_canonical_symmetry\<close>, the flip only when it is strictly
  smaller in the lexicographic order of the cell codes.
\<close>

definition get_canonical_symmetry :: "Board \<Rightarrow> Symmetry" where
  "get_canonical_symmetry b =
     (if board_codes (transform_board b FlipH) < board_codes b then FlipH else Identity)"

definition canonical :: "Board \<Rightarrow> Board" where
  "canonical b = transform_board b (get_canonical_symmetry b)"

text \<open>
  Scenario 8 of the specification: the initial position with a black tile on (1,2), and its
  mirror image with the tile on (3,2).
\<close>

definition tile_left_state :: GameState where
  "tile_left_state =
     initial_state\<lparr>board := initial_board[11 := \<lparr>occupant = NoPlayer, tile = TileBlack\<rparr>]\<rparr>"

definition tile_right_state :: GameState where
  "tile_right_state =
     initial_state\<lparr>board := initial_board[13 := \<lparr>occupant = NoPlayer, tile = TileBlack\<rparr>]\<rparr>"

section \<open>N-tuple evaluator\<close>

text \<open>
  \<^verbatim>\<open>engine/src/ntuple.cpp\<close>. A pattern is an array of cell indices with a count. The
  weights are \<^verbatim>\<open>float\<close>s; the functions that only add and negate them are written for any
  type with \<open>0\<close>, \<open>+\<close> and unary minus, so that nothing is assumed about rounding.
\<close>

record NTuple =
  cell_indices :: "int list"
  num_cells :: nat

text \<open>The members \<^verbatim>\<open>tuples_\<close> and \<^verbatim>\<open>weights_\<close> (a trailing underscore is not a name here).\<close>

record 'a NTupleNetwork =
  tuples :: "NTuple list"
  weights :: "'a list list"

definition encode_tile_inventory :: "int \<Rightarrow> int \<Rightarrow> int" where
  "encode_tile_inventory black_tiles gray_tiles = black_tiles + gray_tiles * 4"

text \<open>One round of the loop over the pattern's cells in \<^verbatim>\<open>NTuple::to_index\<close>.\<close>

definition index_step :: "Board \<Rightarrow> int \<Rightarrow> int \<Rightarrow> int \<Rightarrow> int \<Rightarrow> int" where
  "index_step b offset_x offset_y idx cell_idx =
     (let dx' = cell_idx smod 5;
          dy' = cell_idx sdiv 5;
          x = offset_x + dx';
          y = offset_y + dy'
      in if x < 0 \<or> x \<ge> BOARD_W \<or> y < 0 \<or> y \<ge> BOARD_H then idx * 9 + 0
         else idx * 9 + encode_cell (board_at b x y))"

text \<open>
  \<^verbatim>\<open>NTuple::to_index\<close>, a \<^verbatim>\<open>long long\<close>: with at most nine cells and inventories in range
  the value stays below \<open>9 ^ 9 * 64\<close>, far from the 64-bit limit, so it is an \<open>int\<close> here.
\<close>

definition to_index :: "NTuple \<Rightarrow> GameState \<Rightarrow> int \<Rightarrow> int \<Rightarrow> int" where
  "to_index t state offset_x offset_y =
     (let b = board state;
          idx = foldl (index_step b offset_x offset_y) 0 (take (num_cells t) (cell_indices t));
          black_inv = inventory state Black;
          white_inv = inventory state White;
          black_tile_idx = encode_tile_inventory (black black_inv) (gray black_inv);
          white_tile_idx = encode_tile_inventory (black white_inv) (gray white_inv)
      in idx * 64 + (black_tile_idx * 8 + white_tile_idx))"

definition num_states :: "NTuple \<Rightarrow> int" where
  "num_states t = 9 ^ num_cells t * 64"

text \<open>
  \<^verbatim>\<open>int idx = tuple.to_index(...)\<close>: the 64-bit index is stored in a 32-bit \<^verbatim>\<open>int\<close>, which
  keeps its low 32 bits in two's complement.
\<close>

definition int_of_long_long :: "int \<Rightarrow> int" where
  "int_of_long_long v = sint (word_of_int v :: 32 word)"

text \<open>
  \<^verbatim>\<open>weights[idx]\<close> on a \<^verbatim>\<open>std::vector<float>\<close>: a read outside the vector (a negative
  \<open>idx\<close> becomes a huge \<^verbatim>\<open>size_t\<close>) has no defined result, written \<open>None\<close>.
\<close>

definition weight_at :: "'a list \<Rightarrow> int \<Rightarrow> 'a option" where
  "weight_at w idx = (if 0 \<le> idx \<and> nat idx < length w then Some (w ! nat idx) else None)"

definition base_patterns :: "int list list" where
  "base_patterns = [
     [0, 1, 2, 3, 4, 5, 6, 7, 8],
     [5, 6, 7, 8, 9, 10, 11, 12, 13],
     [10, 11, 12, 13, 14, 15, 16, 17, 18],
     [15, 16, 17, 18, 19, 20, 21, 22, 23],
     [0, 1, 2, 5, 6, 7, 10, 11, 12],
     [1, 2, 3, 6, 7, 8, 11, 12, 13],
     [5, 6, 7, 10, 11, 12, 15, 16, 17],
     [6, 7, 8, 11, 12, 13, 16, 17, 18],
     [10, 11, 12, 15, 16, 17, 20, 21, 22],
     [11, 12, 13, 16, 17, 18, 21, 22, 23],
     [0, 1, 2, 3, 4, 5, 10, 15, 20],
     [0, 1, 2, 3, 4, 7, 12, 17, 22]]"

text \<open>\<^verbatim>\<open>NTupleNetwork::init_tuples\<close>: one pattern per base pattern, in order.\<close>

definition init_tuples :: "NTuple list" where
  "init_tuples = map (\<lambda>base. \<lparr>cell_indices = base, num_cells = length base\<rparr>) base_patterns"

text \<open>
  The loop shared by \<^verbatim>\<open>evaluate\<close> and \<^verbatim>\<open>td_update\<close>: \<^verbatim>\<open>value += weights_[i][idx]\<close> for
  each pattern \<open>i\<close>, walking \<^verbatim>\<open>tuples_\<close> and \<^verbatim>\<open>weights_\<close> side by side.
\<close>

fun weight_sum :: "NTuple list \<Rightarrow> 'a::plus list list \<Rightarrow> GameState \<Rightarrow> 'a \<Rightarrow> 'a option" where
  "weight_sum [] ws cs v = Some v"
| "weight_sum (t # ts) [] cs v = None"
| "weight_sum (t # ts) (w # ws) cs v =
     (let idx = int_of_long_long (to_index t cs 0 0)
      in case weight_at w idx of
           None \<Rightarrow> None
         | Some x \<Rightarrow> weight_sum ts ws cs (v + x))"

definition canonical_state :: "GameState \<Rightarrow> GameState" where
  "canonical_state state =
     (let b = board state;
          canonical_sym = get_canonical_symmetry b;
          canonical_board = transform_board b canonical_sym
      in state\<lparr>board := canonical_board\<rparr>)"

definition evaluate :: "'a::{zero,plus,uminus} NTupleNetwork \<Rightarrow> GameState \<Rightarrow> 'a option" where
  "evaluate net state =
     (case weight_sum (tuples net) (weights net) (canonical_state state) 0 of
        None \<Rightarrow> None
      | Some v \<Rightarrow> Some (if current_player state = White then - v else v))"



definition NTupleNetwork_new :: "'a::field NTupleNetwork" where
  "NTupleNetwork_new =
     (let ts = init_tuples;
          initial_weight = (5 / 10) / of_nat (length ts)
      in \<lparr>tuples = ts, weights = map (\<lambda>t. replicate (nat (num_states t)) initial_weight) ts\<rparr>)"

text \<open>
  What section 4.E of the specification describes: the sum of the weights at the full
  index \<open>idx * 64 + T\<close> of each pattern, in the order of the catalogue.
\<close>

fun spec_weight_sum :: "NTuple list \<Rightarrow> 'a::plus list list \<Rightarrow> GameState \<Rightarrow> 'a \<Rightarrow> 'a option" where
  "spec_weight_sum [] ws cs v = Some v"
| "spec_weight_sum (t # ts) [] cs v = None"
| "spec_weight_sum (t # ts) (w # ws) cs v =
     (case weight_at w (to_index t cs 0 0) of
        None \<Rightarrow> None
      | Some x \<Rightarrow> spec_weight_sum ts ws cs (v + x))"

definition spec_evaluate :: "'a::{zero,plus,uminus} NTupleNetwork \<Rightarrow> GameState \<Rightarrow> 'a option" where
  "spec_evaluate net state =
     (case spec_weight_sum (tuples net) (weights net) (canonical_state state) 0 of
        None \<Rightarrow> None
      | Some v \<Rightarrow> Some (if current_player state = White then - v else v))"

text \<open>The weights at a list of indices, one per table, added up from left to right.\<close>

fun lookup_sum :: "int list \<Rightarrow> 'a::plus list list \<Rightarrow> 'a \<Rightarrow> 'a option" where
  "lookup_sum [] ws v = Some v"
| "lookup_sum (i # is) [] v = None"
| "lookup_sum (i # is) (w # ws) v =
     (case weight_at w i of None \<Rightarrow> None | Some x \<Rightarrow> lookup_sum is ws (v + x))"

text \<open>
  A network over the catalogue whose twelve tables have the full size \<open>9 ^ 9 * 64\<close> and
  hold 0 everywhere but for a 1 in the first table at index 9297934335, the index of the
  initial position for the first pattern.
\<close>

definition probe_network :: "real NTupleNetwork" where
  "probe_network =
     \<lparr>tuples = init_tuples,
      weights = (replicate 24794911296 0)[9297934335 := 1] # replicate 11 (replicate 24794911296 0)\<rparr>"

subsection \<open>Persistence\<close>

text \<open>
  A weight file that could be opened and holds at least its pattern count: the stored
  count, then for each table its stored length and the floats that follow. \<open>None\<close> stands
  for a file that cannot be opened.
\<close>

datatype 'a weight_file = WeightFile (file_num_tuples: nat) (file_tables: "(nat \<times> 'a list) list")

text \<open>
  \<^verbatim>\<open>w.resize(size)\<close> followed by a read of \<open>size\<close> floats, of which the file may hold fewer.
\<close>

definition read_table :: "'a::zero list \<Rightarrow> nat \<times> 'a list \<Rightarrow> 'a list" where
  "read_table w entry =
     (let size = fst entry;
          resized = take size w @ replicate (size - length w) 0;
          got = take size (snd entry)
      in got @ drop (length got) resized)"

text \<open>
  The loop over \<^verbatim>\<open>weights_\<close>. When the file ends before a table's length field, \<open>size\<close> is
  read uninitialised: no defined result (\<open>None\<close>).
\<close>

fun read_tables :: "'a::zero list list \<Rightarrow> (nat \<times> 'a list) list \<Rightarrow> 'a list list option" where
  "read_tables [] entries = Some []"
| "read_tables (w # ws) [] = None"
| "read_tables (w # ws) (e # es) =
     (case read_tables ws es of None \<Rightarrow> None | Some ws' \<Rightarrow> Some (read_table w e # ws'))"

definition load :: "'a::zero NTupleNetwork \<Rightarrow> 'a weight_file option \<Rightarrow> 'a NTupleNetwork option" where
  "load net file =
     (case file of
        None \<Rightarrow> Some net
      | Some f \<Rightarrow>
          if file_num_tuples f \<noteq> length (tuples net) then Some net
          else (case read_tables (weights net) (file_tables f) of
                  None \<Rightarrow> None
                | Some ws' \<Rightarrow> Some (net\<lparr>weights := ws'\<rparr>)))"

text \<open>
  \<^verbatim>\<open>NTuplePolicy::load\<close>: \<open>true\<close> unless \<^verbatim>\<open>network_.load\<close> throws, which it never does; the
  pair is the returned flag and the network afterwards.
\<close>

definition NTuplePolicy_load :: "'a::zero NTupleNetwork \<Rightarrow> 'a weight_file option \<Rightarrow> bool \<times> 'a NTupleNetwork option" where
  "NTuplePolicy_load net file = (True, load net file)"

section \<open>State array of the web session\<close>

text \<open>
  \<^verbatim>\<open>apps/web_server/game_session.cpp\<close>. \<^verbatim>\<open>GameSession::encode_cell\<close> is the same
  \<open>occupant * 3 + tile\<close> as \<^verbatim>\<open>NTuple::encode_cell\<close>.
\<close>

fun player_of_int :: "int \<Rightarrow> Player" where
  "player_of_int i = (if i = 0 then NoPlayer else if i = 1 then Black else White)"

fun tile_of_int :: "int \<Rightarrow> TileType" where
  "tile_of_int i = (if i = 0 then TileNone else if i = 1 then TileBlack else TileGray)"

definition decode_cell :: "int \<Rightarrow> Cell option" where
  "decode_cell v =
     (if v < 0 \<or> v > 8 then None
      else Some \<lparr>occupant = player_of_int (v sdiv 3), tile = tile_of_int (v smod 3)\<rparr>)"

definition board_to_array :: "GameState \<Rightarrow> int list" where
  "board_to_array state =
     concat (map (\<lambda>y. map (\<lambda>x. encode_cell (board_at (board state) x y)) [0 .. 4]) [0 .. 4])
     @ [black (inventory state Black), gray (inventory state Black),
        black (inventory state White), gray (inventory state White)]"

datatype array_error =
    ArraySize
  | InvalidCell nat int
  | InvalidBlackPlayerBlack int
  | InvalidBlackPlayerGray int
  | InvalidWhitePlayerBlack int
  | InvalidWhitePlayerGray int
  | DecodeFailed nat

text \<open>The validation loop over the indices \<open>i, i + 1, \<dots>, 24\<close>.\<close>

function check_cells :: "int list \<Rightarrow> nat \<Rightarrow> array_error option" where
  "check_cells a i =
     (if i < 25 then
        (if a ! i < 0 \<or> a ! i > 8 then Some (InvalidCell i (a ! i)) else check_cells a (Suc i))
      else None)"
  by pat_completeness auto
termination
  by (relation "measure (\<lambda>(a, i). 25 - i)") auto

declare check_cells.simps [simp del]

text \<open>
  The loop that writes the cells, over the coordinates in row-major order with the running
  index \<open>idx\<close>. A failing \<^verbatim>\<open>decode_cell\<close> returns with the cells written so far in place.
\<close>

fun apply_cells :: "int list \<Rightarrow> (int \<times> int) list \<Rightarrow> nat \<Rightarrow> Board \<Rightarrow> nat option \<times> Board" where
  "apply_cells a [] idx b = (None, b)"
| "apply_cells a ((x, y) # rest) idx b =
     (case decode_cell (a ! idx) of
        None \<Rightarrow> (Some idx, b)
      | Some cell \<Rightarrow> apply_cells a rest (Suc idx) (board_set b x y cell))"

text \<open>The linear index of a coordinate pair.\<close>

definition lin :: "int \<times> int \<Rightarrow> nat" where
  "lin c = nat (snd c * BOARD_W + fst c)"

definition row_major :: "(int \<times> int) list" where
  "row_major = concat (map (\<lambda>y. map (\<lambda>x. (x, y)) [0 .. 4]) [0 .. 4])"

text \<open>\<^verbatim>\<open>GameSession::array_to_board\<close>: the error, if any, and the session's state afterwards.\<close>

definition array_to_board :: "int list \<Rightarrow> GameState \<Rightarrow> array_error option \<times> GameState" where
  "array_to_board a state =
     (if length a \<noteq> 29 then (Some ArraySize, state)
      else case check_cells a 0 of
        Some e \<Rightarrow> (Some e, state)
      | None \<Rightarrow>
          if a ! 25 < 0 \<or> a ! 25 > 3 then (Some (InvalidBlackPlayerBlack (a ! 25)), state)
          else if a ! 26 < 0 \<or> a ! 26 > 1 then (Some (InvalidBlackPlayerGray (a ! 26)), state)
          else if a ! 27 < 0 \<or> a ! 27 > 3 then (Some (InvalidWhitePlayerBlack (a ! 27)), state)
          else if a ! 28 < 0 \<or> a ! 28 > 1 then (Some (InvalidWhitePlayerGray (a ! 28)), state)
          else
            (case apply_cells a row_major 0 (board state) of
               (Some idx, b') \<Rightarrow> (Some (DecodeFailed idx), state\<lparr>board := b'\<rparr>)
             | (None, b') \<Rightarrow>
                 (None, state\<lparr>board := b',
                    inv_black := (inv_black state)\<lparr>black := a ! 25, gray := a ! 26\<rparr>,
                    inv_white := (inv_white state)\<lparr>black := a ! 27, gray := a ! 28\<rparr>\<rparr>)))"

text \<open>The arrays the decoder is specified to accept.\<close>

definition valid_array :: "int list \<Rightarrow> bool" where
  "valid_array a =
     (length a = 29 \<and> (\<forall>i < 25. 0 \<le> a ! i \<and> a ! i \<le> 8)
      \<and> 0 \<le> a ! 25 \<and> a ! 25 \<le> 3 \<and> 0 \<le> a ! 26 \<and> a ! 26 \<le> 1
      \<and> 0 \<le> a ! 27 \<and> a ! 27 \<le> 3 \<and> 0 \<le> a ! 28 \<and> a ! 28 \<le> 1)"

text \<open>The array of the initial state (scenario 1 of the specification).\<close>

definition initial_array :: "int list" where
  "initial_array = [3,3,3,3,3, 0,0,0,0,0, 0,0,0,0,0, 0,0,0,0,0, 6,6,6,6,6, 3,1,3,1]"

section \<open>Self-play trainers\<close>




text \<open>
  The plain parallel trainer (\<^verbatim>\<open>play_training_game\<close> with the learner fixed to Black): the
  state is reset and recorded; the game number is not passed to the game.
\<close>

definition play_training_game_first_state :: GameState where
  "play_training_game_first_state = initial_state"

definition training_worker_first_state :: "int \<Rightarrow> GameState" where
  "training_worker_first_state game_num = play_training_game_first_state"

section \<open>The move table is the board's geometry\<close>

text \<open>Each of the 75 entries is compared with the rays computed from the coordinates.\<close>

lemma table_ok_None: "list_all (table_entry_ok TileNone) [0..<25]"
  by code_simp

lemma table_ok_Black: "list_all (table_entry_ok TileBlack) [0..<25]"
  by code_simp

lemma table_ok_Gray: "list_all (table_entry_ok TileGray) [0..<25]"
  by code_simp

lemma table_entry_ok_all:
  assumes "origin < 25"
  shows "table_entry_ok t origin"
proof -
  have mem: "origin \<in> set [0..<25]" using assms by simp
  show ?thesis
  proof (cases t)
    case TileNone
    then show ?thesis using table_ok_None mem unfolding list_all_iff by blast
  next
    case TileBlack
    then show ?thesis using table_ok_Black mem unfolding list_all_iff by blast
  next
    case TileGray
    then show ?thesis using table_ok_Gray mem unfolding list_all_iff by blast
  qed
qed

lemma geometric_ray_nth:
  assumes "k < length (geometric_ray x y d)"
  shows "geometric_ray x y d ! k = (int k + 1) * (snd d * BOARD_W + fst d)
       \<and> on_board (x + (int k + 1) * fst d) (y + (int k + 1) * snd d)"
proof -
  let ?P = "\<lambda>k. on_board (x + k * fst d) (y + k * snd d)"
  let ?ks = "takeWhile ?P [1 .. 4]"
  have len: "k < length ?ks" using assms by (simp add: geometric_ray_def)
  have "length ?ks \<le> length [1 .. (4::int)]" by (rule length_takeWhile_le)
  then have k4: "k < 4" using len by simp
  have nth: "?ks ! k = int k + 1"
    using takeWhile_nth [OF len] k4 by (simp add: nth_upto)
  have "?ks ! k \<in> set ?ks" using len by (rule nth_mem)
  then have "?P (?ks ! k)" by (rule set_takeWhileD [THEN conjunct2])
  then show ?thesis using nth len by (simp add: geometric_ray_def)
qed

text \<open>
  Claim C7. For every tile type and every origin cell \<open>0..24\<close>, the directions of the
  table entry list, in order, exactly the index offsets of the cells at steps
  \<open>1, 2, 3, \<dots>\<close> from the origin along one fixed direction up to the board edge: the four
  orthogonal directions for \<open>None\<close>, the four diagonal ones for \<open>Black\<close>, all eight for
  \<open>Gray\<close>. Every listed offset lands on the on-board cell of that step of the same ray, so
  no offset wraps across a rank or a file.
\<close>

theorem kMoveTable_rays:
  assumes "origin < 25"
  shows "table_rays t origin
           = map (geometric_ray (int origin mod BOARD_W) (int origin div BOARD_W)) (tile_dirs t)
       \<and> (\<forall>i < length (tile_dirs t). \<forall>k < length (table_rays t origin ! i).
            on_board (int origin mod BOARD_W + (int k + 1) * fst (tile_dirs t ! i))
                     (int origin div BOARD_W + (int k + 1) * snd (tile_dirs t ! i))
          \<and> int origin + table_rays t origin ! i ! k
              = (int origin div BOARD_W + (int k + 1) * snd (tile_dirs t ! i)) * BOARD_W
                + (int origin mod BOARD_W + (int k + 1) * fst (tile_dirs t ! i)))"
proof -
  have eq: "table_rays t origin
           = map (geometric_ray (int origin mod BOARD_W) (int origin div BOARD_W)) (tile_dirs t)"
    using table_entry_ok_all [OF assms, of t] by (simp add: table_entry_ok_def)
  have "on_board (int origin mod BOARD_W + (int k + 1) * fst (tile_dirs t ! i))
                     (int origin div BOARD_W + (int k + 1) * snd (tile_dirs t ! i))
          \<and> int origin + table_rays t origin ! i ! k
              = (int origin div BOARD_W + (int k + 1) * snd (tile_dirs t ! i)) * BOARD_W
                + (int origin mod BOARD_W + (int k + 1) * fst (tile_dirs t ! i))"
    if i: "i < length (tile_dirs t)" and k: "k < length (table_rays t origin ! i)" for i k
  proof -
    have ray: "table_rays t origin ! i
        = geometric_ray (int origin mod BOARD_W) (int origin div BOARD_W) (tile_dirs t ! i)"
      using eq i by simp
    from geometric_ray_nth [of k "int origin mod BOARD_W" "int origin div BOARD_W" "tile_dirs t ! i"]
      k ray
    show ?thesis by (simp add: algebra_simps BOARD_W_def)
  qed
  then show ?thesis using eq by blast
qed

text \<open>The entry of the centre cell on a gray tile.\<close>

theorem kMoveTable_rays_witness:
  "(12::nat) < 25
   \<and> table_rays TileGray 12 = [[1, 2], [-1, -2], [5, 10], [-5, -10], [6, 12], [-4, -8], [4, 8], [-6, -12]]"
proof -
  have g: "map (geometric_ray (int 12 mod BOARD_W) (int 12 div BOARD_W)) (tile_dirs TileGray)
         = [[1, 2], [-1, -2], [5, 10], [-5, -10], [6, 12], [-4, -8], [4, 8], [-6, -12]]"
    by code_simp
  have "table_rays TileGray 12
         = map (geometric_ray (int 12 mod BOARD_W) (int 12 div BOARD_W)) (tile_dirs TileGray)"
    using kMoveTable_rays [of 12 TileGray] by simp
  with g show ?thesis by simp
qed

section \<open>The ray walk\<close>

lemma ray_walk_dropWhile:
  assumes "p \<noteq> NoPlayer" and "ef \<or> step = 0"
  shows "ray_walk b p x y origin ef step rs
       = (case dropWhile (\<lambda>r. occupant (ray_cell b origin r) = p) rs of
            [] \<Rightarrow> []
          | r # _ \<Rightarrow> if occupant (ray_cell b origin r) = NoPlayer
                     then [base_move x y (target_x origin r) (target_y origin r)] else [])"
  using assms
proof (induction rs arbitrary: ef step)
  case Nil
  then show ?case by simp
next
  case (Cons r rs)
  show ?case
  proof (cases "occupant (ray_cell b origin r) = p")
    case True
    then have "ray_walk b p x y origin ef step (r # rs) = ray_walk b p x y origin True (Suc step) rs"
      using Cons.prems(1) by (simp add: ray_cell_def target_x_def target_y_def Let_def)
    also have "\<dots> = (case dropWhile (\<lambda>r. occupant (ray_cell b origin r) = p) rs of
            [] \<Rightarrow> []
          | r # _ \<Rightarrow> if occupant (ray_cell b origin r) = NoPlayer
                     then [base_move x y (target_x origin r) (target_y origin r)] else [])"
      using Cons.IH [of True "Suc step"] Cons.prems(1) by simp
    finally show ?thesis using True by simp
  next
    case False
    then show ?thesis
      using Cons.prems by (auto simp add: ray_cell_def target_x_def target_y_def Let_def)
  qed
qed

lemma first_stop_iff:
  assumes "\<And>r. Q r \<Longrightarrow> \<not> P r"
  shows "m \<in> set (case dropWhile P rs of [] \<Rightarrow> [] | r # _ \<Rightarrow> if Q r then [f r] else [])
       \<longleftrightarrow> (\<exists>k < length rs. (\<forall>j < k. P (rs ! j)) \<and> Q (rs ! k) \<and> m = f (rs ! k))"
proof (induction rs)
  case Nil
  then show ?case by simp
next
  case (Cons r rs)
  show ?case
  proof (cases "P r")
    case True
    have "(\<exists>k < length (r # rs). (\<forall>j < k. P ((r # rs) ! j)) \<and> Q ((r # rs) ! k) \<and> m = f ((r # rs) ! k))
        \<longleftrightarrow> (\<exists>k < length rs. (\<forall>j < k. P (rs ! j)) \<and> Q (rs ! k) \<and> m = f (rs ! k))"
      (is "?L \<longleftrightarrow> ?R")
    proof
      assume ?L
      then obtain k where k: "k < length (r # rs)" "\<forall>j < k. P ((r # rs) ! j)"
        "Q ((r # rs) ! k)" "m = f ((r # rs) ! k)" by blast
      have "k \<noteq> 0" using k(3) True assms by (cases k) auto
      then obtain k' where k': "k = Suc k'" by (cases k) auto
      have "\<forall>j < k'. P (rs ! j)"
      proof (intro allI impI)
        fix j assume "j < k'"
        then have "Suc j < k" using k' by simp
        then have "P ((r # rs) ! Suc j)" using k(2) by blast
        then show "P (rs ! j)" by simp
      qed
      then show ?R using k k' by auto
    next
      assume ?R
      then obtain k where k: "k < length rs" "\<forall>j < k. P (rs ! j)" "Q (rs ! k)" "m = f (rs ! k)"
        by blast
      have "\<forall>j < Suc k. P ((r # rs) ! j)"
      proof (intro allI impI)
        fix j assume "j < Suc k"
        then show "P ((r # rs) ! j)" using True k(2) by (cases j) auto
      qed
      then show ?L using k by (intro exI [of _ "Suc k"]) auto
    qed
    then show ?thesis using True Cons.IH by simp
  next
    case False
    have "(\<exists>k < length (r # rs). (\<forall>j < k. P ((r # rs) ! j)) \<and> Q ((r # rs) ! k) \<and> m = f ((r # rs) ! k))
        \<longleftrightarrow> (Q r \<and> m = f r)"
      (is "?L \<longleftrightarrow> ?R")
    proof
      assume ?L
      then obtain k where k: "k < length (r # rs)" "\<forall>j < k. P ((r # rs) ! j)"
        "Q ((r # rs) ! k)" "m = f ((r # rs) ! k)" by blast
      have "k = 0"
      proof (rule ccontr)
        assume "k \<noteq> 0"
        then have "P ((r # rs) ! 0)" using k(2) by blast
        then show False using False by simp
      qed
      then show ?R using k by simp
    next
      assume ?R
      then show ?L by (intro exI [of _ 0]) auto
    qed
    then show ?thesis using False by auto
  qed
qed

lemma dir_moves_iff:
  assumes "p \<noteq> NoPlayer"
  shows "m \<in> set (dir_moves b p x y origin dir)
       \<longleftrightarrow> (\<exists>k. landing b p origin (take (step_count dir) (rel_index dir)) k
              \<and> m = base_move x y (target_x origin (take (step_count dir) (rel_index dir) ! k))
                                  (target_y origin (take (step_count dir) (rel_index dir) ! k)))"
proof -
  let ?ray = "take (step_count dir) (rel_index dir)"
  have walk: "dir_moves b p x y origin dir = ray_walk b p x y origin False 0 ?ray"
    by (simp add: dir_moves_def)
  have "m \<in> set (ray_walk b p x y origin False 0 ?ray)
      \<longleftrightarrow> (\<exists>k < length ?ray. (\<forall>j < k. occupant (ray_cell b origin (?ray ! j)) = p)
             \<and> occupant (ray_cell b origin (?ray ! k)) = NoPlayer
             \<and> m = base_move x y (target_x origin (?ray ! k)) (target_y origin (?ray ! k)))"
    unfolding ray_walk_dropWhile [OF assms, of False 0, simplified]
    by (rule first_stop_iff) (use assms in auto)
  then show ?thesis unfolding walk landing_def by blast
qed

lemma dir_moves_length:
  assumes "p \<noteq> NoPlayer"
  shows "length (dir_moves b p x y origin dir) \<le> 1"
proof -
  have "dir_moves b p x y origin dir
      = ray_walk b p x y origin False 0 (take (step_count dir) (rel_index dir))"
    by (simp add: dir_moves_def)
  then show ?thesis
    unfolding ray_walk_dropWhile [OF assms, of False 0, simplified]
    by (simp split: list.split)
qed

lemma piece_moves_iff:
  assumes "p \<noteq> NoPlayer"
  shows "m \<in> set (piece_moves b p x y)
       \<longleftrightarrow> (occupant (board_at b x y) = p
            \<and> (\<exists>ray \<in> set (table_rays (tile (board_at b x y)) (nat (y * BOARD_W + x))).
                 \<exists>k. landing b p (y * BOARD_W + x) ray k \<and> m = landing_move x y (ray ! k)))"
proof (cases "occupant (board_at b x y) = p")
  case False
  then show ?thesis by (simp add: piece_moves_def)
next
  case True
  let ?e = "kMoveTable ! nat (tile_int (tile (board_at b x y))) ! nat (y * BOARD_W + x)"
  have "m \<in> set (piece_moves b p x y)
      \<longleftrightarrow> (\<exists>dir \<in> set (take (dir_count ?e) (dirs ?e)).
             m \<in> set (dir_moves b p x y (y * BOARD_W + x) dir))"
    using True by (simp add: piece_moves_def Let_def)
  also have "\<dots> \<longleftrightarrow> (\<exists>ray \<in> set (entry_rays ?e).
                 \<exists>k. landing b p (y * BOARD_W + x) ray k \<and> m = landing_move x y (ray ! k))"
    unfolding dir_moves_iff [OF assms] entry_rays_def landing_move_def by auto
  finally show ?thesis using True by (simp add: table_rays_def)
qed

lemma base_moves_iff:
  assumes "current_player s \<noteq> NoPlayer"
  shows "m \<in> set (base_moves s)
       \<longleftrightarrow> (\<exists>x \<in> {0 .. 4}. \<exists>y \<in> {0 .. 4}.
              occupant (board_at (board s) x y) = current_player s
            \<and> (\<exists>ray \<in> set (table_rays (tile (board_at (board s) x y)) (nat (y * BOARD_W + x))).
                 \<exists>k. landing (board s) (current_player s) (y * BOARD_W + x) ray k
                    \<and> m = landing_move x y (ray ! k)))"
proof -
  have "m \<in> set (base_moves s)
      \<longleftrightarrow> (\<exists>y \<in> {0 .. 4}. \<exists>x \<in> {0 .. 4}. m \<in> set (piece_moves (board s) (current_player s) x y))"
    by (simp add: base_moves_def BOARD_W_def BOARD_H_def)
  then show ?thesis unfolding piece_moves_iff [OF assms] by blast
qed

text \<open>
  Claim C2. For a state whose side to move is a player: a ray walk emits a base move to an
  empty cell at step 0 when no own piece has been passed, and at any step once the flag
  \<open>encountered_friend\<close> is set (with the flag unset an empty cell at a later step gives no
  move); it continues past an own piece, setting the flag; it ends the direction without a
  move at an opponent piece. No other base moves exist: the base
  moves are exactly the landings (the first empty cell of a ray, every earlier cell of the
  ray being an own piece) on the table's rays from the mover's pieces.
\<close>

theorem ray_walk_base_moves:
  assumes "current_player s \<noteq> NoPlayer"
  shows "(occupant (ray_cell (board s) origin r) = NoPlayer \<longrightarrow>
            ray_walk (board s) (current_player s) x y origin False 0 (r # rs)
              = [base_move x y (target_x origin r) (target_y origin r)]
          \<and> ray_walk (board s) (current_player s) x y origin True step (r # rs)
              = [base_move x y (target_x origin r) (target_y origin r)]
          \<and> ray_walk (board s) (current_player s) x y origin False (Suc step) (r # rs) = [])
       \<and> (occupant (ray_cell (board s) origin r) = current_player s \<longrightarrow>
            ray_walk (board s) (current_player s) x y origin ef step (r # rs)
              = ray_walk (board s) (current_player s) x y origin True (Suc step) rs)
       \<and> (occupant (ray_cell (board s) origin r) \<noteq> NoPlayer
            \<and> occupant (ray_cell (board s) origin r) \<noteq> current_player s \<longrightarrow>
            ray_walk (board s) (current_player s) x y origin ef step (r # rs) = [])
       \<and> (m \<in> set (base_moves s)
            \<longleftrightarrow> (\<exists>x \<in> {0 .. 4}. \<exists>y \<in> {0 .. 4}.
                   occupant (board_at (board s) x y) = current_player s
                 \<and> (\<exists>ray \<in> set (table_rays (tile (board_at (board s) x y)) (nat (y * BOARD_W + x))).
                      \<exists>k. landing (board s) (current_player s) (y * BOARD_W + x) ray k
                         \<and> m = landing_move x y (ray ! k))))"
proof -
  have "occupant (ray_cell (board s) origin r) = current_player s \<longrightarrow>
            ray_walk (board s) (current_player s) x y origin ef step (r # rs)
              = ray_walk (board s) (current_player s) x y origin True (Suc step) rs"
    using assms by (simp add: ray_cell_def target_x_def target_y_def Let_def)
  moreover have "occupant (ray_cell (board s) origin r) = NoPlayer \<longrightarrow>
            ray_walk (board s) (current_player s) x y origin False 0 (r # rs)
              = [base_move x y (target_x origin r) (target_y origin r)]
          \<and> ray_walk (board s) (current_player s) x y origin True step (r # rs)
              = [base_move x y (target_x origin r) (target_y origin r)]
          \<and> ray_walk (board s) (current_player s) x y origin False (Suc step) (r # rs) = []"
    by (simp add: ray_cell_def target_x_def target_y_def Let_def)
  moreover have "occupant (ray_cell (board s) origin r) \<noteq> NoPlayer
            \<and> occupant (ray_cell (board s) origin r) \<noteq> current_player s \<longrightarrow>
            ray_walk (board s) (current_player s) x y origin ef step (r # rs) = []"
    by (simp add: ray_cell_def target_x_def target_y_def Let_def)
  ultimately show ?thesis using base_moves_iff [OF assms, of m] by blast
qed

text \<open>The jump position: (2,2) lands on (2,4) over the own piece at (2,3), not on (2,3).\<close>

theorem ray_walk_base_moves_witness:
  "current_player jump_state \<noteq> NoPlayer
   \<and> landing_move 2 2 10 \<in> set (base_moves jump_state)
   \<and> (\<exists>x \<in> {0 .. 4}. \<exists>y \<in> {0 .. 4}.
         occupant (board_at (board jump_state) x y) = current_player jump_state
       \<and> (\<exists>ray \<in> set (table_rays (tile (board_at (board jump_state) x y)) (nat (y * BOARD_W + x))).
            \<exists>k. landing (board jump_state) (current_player jump_state) (y * BOARD_W + x) ray k
               \<and> landing_move 2 2 10 = landing_move x y (ray ! k)))
   \<and> landing_move 2 2 5 \<notin> set (base_moves jump_state)"
proof -
  have p: "current_player jump_state \<noteq> NoPlayer"
    by (simp add: jump_state_def initial_state_def current_player_def)
  have bm: "base_moves jump_state =
     [base_move 2 2 3 2, base_move 2 2 1 2, base_move 2 2 2 4, base_move 2 2 2 1,
      base_move 2 3 3 3, base_move 2 3 1 3, base_move 2 3 2 4, base_move 2 3 2 1]"
    by code_simp
  have lm: "landing_move 2 2 10 = base_move 2 2 2 4" "landing_move 2 2 5 = base_move 2 2 2 3"
    by code_simp+
  have inside: "landing_move 2 2 10 \<in> set (base_moves jump_state)"
    and outside: "landing_move 2 2 5 \<notin> set (base_moves jump_state)"
    using bm lm by (simp_all add: base_move_def Move_default_def)
  from inside ray_walk_base_moves [OF p, where m = "landing_move 2 2 10"]
  have "\<exists>x \<in> {0 .. 4}. \<exists>y \<in> {0 .. 4}.
         occupant (board_at (board jump_state) x y) = current_player jump_state
       \<and> (\<exists>ray \<in> set (table_rays (tile (board_at (board jump_state) x y)) (nat (y * BOARD_W + x))).
            \<exists>k. landing (board jump_state) (current_player jump_state) (y * BOARD_W + x) ray k
               \<and> landing_move 2 2 10 = landing_move x y (ray ! k))"
    by blast
  then show ?thesis using p inside outside by blast
qed

section \<open>Every legal move is sound\<close>

lemma ray_walk_emits:
  assumes "m \<in> set (ray_walk b p x y origin ef step rs)"
  shows "\<exists>r \<in> set rs. m = base_move x y (target_x origin r) (target_y origin r)
           \<and> occupant (ray_cell b origin r) = NoPlayer"
  using assms
proof (induction rs arbitrary: ef step)
  case Nil
  then show ?case by simp
next
  case (Cons r rs)
  show ?case
  proof (cases "occupant (ray_cell b origin r) = NoPlayer")
    case True
    then have "m = base_move x y (target_x origin r) (target_y origin r)"
      using Cons.prems
      by (auto simp add: ray_cell_def target_x_def target_y_def Let_def split: if_splits)
    then show ?thesis using True by simp
  next
    case False
    then have "m \<in> set (ray_walk b p x y origin True (Suc step) rs)"
      using Cons.prems
      by (auto simp add: ray_cell_def target_x_def target_y_def Let_def split: if_splits)
    then show ?thesis using Cons.IH by auto
  qed
qed

lemma piece_moves_emits:
  assumes "m \<in> set (piece_moves b p x y)"
  shows "occupant (board_at b x y) = p
       \<and> (\<exists>ray \<in> set (table_rays (tile (board_at b x y)) (nat (y * BOARD_W + x))).
            \<exists>r \<in> set ray. m = landing_move x y r
              \<and> occupant (ray_cell b (y * BOARD_W + x) r) = NoPlayer)"
proof -
  have occ: "occupant (board_at b x y) = p"
    using assms by (auto simp add: piece_moves_def split: if_splits)
  let ?e = "kMoveTable ! nat (tile_int (tile (board_at b x y))) ! nat (y * BOARD_W + x)"
  from assms occ obtain dir where dir: "dir \<in> set (take (dir_count ?e) (dirs ?e))"
    and m: "m \<in> set (dir_moves b p x y (y * BOARD_W + x) dir)"
    by (auto simp add: piece_moves_def Let_def)
  from m have "m \<in> set (ray_walk b p x y (y * BOARD_W + x) False 0
                         (take (step_count dir) (rel_index dir)))"
    by (auto simp add: dir_moves_def split: if_splits)
  from ray_walk_emits [OF this]
  obtain r where r: "r \<in> set (take (step_count dir) (rel_index dir))"
    "m = landing_move x y r" "occupant (ray_cell b (y * BOARD_W + x) r) = NoPlayer"
    by (auto simp add: landing_move_def)
  have "take (step_count dir) (rel_index dir) \<in> set (table_rays (tile (board_at b x y)) (nat (y * BOARD_W + x)))"
    using dir by (auto simp add: table_rays_def entry_rays_def)
  then show ?thesis using occ r by blast
qed

lemma base_moves_emits:
  assumes "m \<in> set (base_moves s)"
  shows "\<exists>x \<in> {0 .. 4}. \<exists>y \<in> {0 .. 4}. occupant (board_at (board s) x y) = current_player s
       \<and> (\<exists>ray \<in> set (table_rays (tile (board_at (board s) x y)) (nat (y * BOARD_W + x))).
            \<exists>r \<in> set ray. m = landing_move x y r
              \<and> occupant (ray_cell (board s) (y * BOARD_W + x) r) = NoPlayer)"
proof -
  from assms obtain x y where xy: "x \<in> {0 .. 4}" "y \<in> {0 .. 4}"
    and m: "m \<in> set (piece_moves (board s) (current_player s) x y)"
    by (auto simp add: base_moves_def BOARD_W_def BOARD_H_def)
  from piece_moves_emits [OF m] xy show ?thesis by blast
qed

lemma landing_move_fields:
  "sx (landing_move x y r) = x" "sy (landing_move x y r) = y"
  "dx (landing_move x y r) = target_x (y * BOARD_W + x) r"
  "dy (landing_move x y r) = target_y (y * BOARD_W + x) r"
  "place_tile (landing_move x y r) = False"
  by (simp_all add: landing_move_def base_move_def)

lemma placements_iff:
  "m \<in> set (placements b base t)
   \<longleftrightarrow> (\<exists>x \<in> {0 .. 4}. \<exists>y \<in> {0 .. 4}.
          occupant (board_at b x y) = NoPlayer \<and> tile (board_at b x y) = TileNone
        \<and> m = base\<lparr>place_tile := True, tx := x, ty := y, mtile := t\<rparr>)"
  by (auto simp add: placements_def BOARD_W_def BOARD_H_def split: if_splits)

lemma expand_move_iff:
  "m \<in> set (expand_move s base)
   \<longleftrightarrow> (m = base
      \<or> (\<exists>t. tile_available s t \<and> m \<in> set (placements (board s) base t)))"
  by (auto simp add: expand_move_def tile_available_def Let_def)

lemma legal_moves_iff:
  "m \<in> set (legal_moves s) \<longleftrightarrow> (\<exists>base \<in> set (base_moves s). m \<in> set (expand_move s base))"
  by (simp add: legal_moves_def)

text \<open>
  Claim C10. For every state whose side to move is a player and every move of
  \<open>legal_moves\<close>: the source cell holds a piece of the side to move, the destination cell
  is unoccupied in the state, and a move that places a tile has a target that is unoccupied
  and tile-free in the state before the move, a tile kind whose count in the mover's
  inventory is positive, and a target different from the source.
\<close>

theorem legal_moves_sound:
  assumes "m \<in> set (legal_moves s)" and "to_move s \<noteq> NoPlayer"
  shows "occupant (board_at (board s) (sx m) (sy m)) = to_move s
       \<and> occupant (board_at (board s) (dx m) (dy m)) = NoPlayer
       \<and> (place_tile m \<longrightarrow>
            occupant (board_at (board s) (tx m) (ty m)) = NoPlayer
          \<and> tile (board_at (board s) (tx m) (ty m)) = TileNone
          \<and> (mtile m = TileBlack \<and> black (inventory s (to_move s)) > 0
             \<or> mtile m = TileGray \<and> gray (inventory s (to_move s)) > 0)
          \<and> (tx m, ty m) \<noteq> (sx m, sy m))"
proof -
  from assms(1) obtain base where base: "base \<in> set (base_moves s)"
    and m: "m \<in> set (expand_move s base)"
    unfolding legal_moves_iff by blast
  from base_moves_emits [OF base] obtain x y r where
    occ: "occupant (board_at (board s) x y) = current_player s"
    and lm: "base = landing_move x y r"
    and dest: "occupant (ray_cell (board s) (y * BOARD_W + x) r) = NoPlayer"
    by blast
  have src: "occupant (board_at (board s) (sx base) (sy base)) = to_move s"
    using occ lm by (simp add: landing_move_fields current_player_def)
  have dst: "occupant (board_at (board s) (dx base) (dy base)) = NoPlayer"
    using dest lm by (simp add: landing_move_fields ray_cell_def)
  have npl: "\<not> place_tile base" using lm by (simp add: landing_move_fields)
  show ?thesis
  proof (cases "m = base")
    case True
    then show ?thesis using src dst npl by simp
  next
    case False
    with m obtain t where t: "tile_available s t" and pl: "m \<in> set (placements (board s) base t)"
      unfolding expand_move_iff by blast
    from pl obtain x' y' where
      free: "occupant (board_at (board s) x' y') = NoPlayer" "tile (board_at (board s) x' y') = TileNone"
      and meq: "m = base\<lparr>place_tile := True, tx := x', ty := y', mtile := t\<rparr>"
      unfolding placements_iff by blast
    have ne: "(tx m, ty m) \<noteq> (sx m, sy m)"
    proof
      assume "(tx m, ty m) = (sx m, sy m)"
      then have "board_at (board s) x' y' = board_at (board s) (sx base) (sy base)"
        using meq by simp
      then show False using free(1) src assms(2) by simp
    qed
    show ?thesis
      using src dst free t ne meq by (simp add: tile_available_def current_player_def)
  qed
qed

text \<open>Lone Black piece at (2,2): the step to (2,3) with a gray tile placed on (1,1).\<close>

theorem legal_moves_sound_witness:
  "landing_move 2 2 5 \<lparr>place_tile := True, tx := 1, ty := 1, mtile := TileGray\<rparr>
      \<in> set (legal_moves lone_black_state)
   \<and> to_move lone_black_state \<noteq> NoPlayer
   \<and> occupant (board_at (board lone_black_state) 2 2) = to_move lone_black_state
   \<and> occupant (board_at (board lone_black_state) 2 3) = NoPlayer
   \<and> tile (board_at (board lone_black_state) 1 1) = TileNone
   \<and> gray (inventory lone_black_state (to_move lone_black_state)) > 0"
proof -
  let ?m = "landing_move 2 2 5 \<lparr>place_tile := True, tx := 1, ty := 1, mtile := TileGray\<rparr>"
  have mem: "?m \<in> set (legal_moves lone_black_state)"
    by code_simp
  have p: "to_move lone_black_state \<noteq> NoPlayer"
    by (simp add: lone_black_state_def initial_state_def)
  have f: "sx ?m = 2" "sy ?m = 2" "dx ?m = 2" "dy ?m = 3" "tx ?m = 1" "ty ?m = 1"
    "mtile ?m = TileGray" "place_tile ?m"
    by (simp_all add: landing_move_fields target_x_def target_y_def BOARD_W_def)
  from legal_moves_sound [OF mem p] show ?thesis
    using mem p unfolding f by simp
qed

section \<open>Tile-placement variants\<close>

lemma distinct_concat_map_key:
  assumes "distinct (concat (map K xs))"
    and "\<And>x. x \<in> set xs \<Longrightarrow> distinct (f x) \<and> g ` set (f x) \<subseteq> set (K x)"
  shows "distinct (concat (map f xs))"
  using assms
proof (induction xs)
  case Nil
  then show ?case by simp
next
  case (Cons x xs)
  have dK: "distinct (concat (map K xs))" and disjK: "set (K x) \<inter> set (concat (map K xs)) = {}"
    using Cons.prems(1) by auto
  have IH: "distinct (concat (map f xs))"
    using Cons.IH [OF dK] Cons.prems(2) by simp
  have "set (f x) \<inter> set (concat (map f xs)) = {}"
  proof (rule ccontr)
    assume "set (f x) \<inter> set (concat (map f xs)) \<noteq> {}"
    then obtain m x' where m: "m \<in> set (f x)" "x' \<in> set xs" "m \<in> set (f x')" by auto
    have "g m \<in> set (K x)" using m(1) Cons.prems(2) [of x] by auto
    moreover have "g m \<in> set (K x')" using m(2,3) Cons.prems(2) [of x'] by auto
    then have "g m \<in> set (concat (map K xs))" using m(2) by auto
    ultimately show False using disjK by blast
  qed
  then show ?case using IH Cons.prems(2) [of x] by simp
qed

lemma table_targets_None:
  "list_all (\<lambda>origin. distinct (concat (table_rays TileNone origin))
      \<and> list_all (\<lambda>r. 0 \<le> int origin + r \<and> int origin + r < 25) (concat (table_rays TileNone origin)))
     [0..<25]"
  by code_simp

lemma table_targets_Black:
  "list_all (\<lambda>origin. distinct (concat (table_rays TileBlack origin))
      \<and> list_all (\<lambda>r. 0 \<le> int origin + r \<and> int origin + r < 25) (concat (table_rays TileBlack origin)))
     [0..<25]"
  by code_simp

lemma table_targets_Gray:
  "list_all (\<lambda>origin. distinct (concat (table_rays TileGray origin))
      \<and> list_all (\<lambda>r. 0 \<le> int origin + r \<and> int origin + r < 25) (concat (table_rays TileGray origin)))
     [0..<25]"
  by code_simp

lemma table_targets:
  assumes "origin < 25"
  shows "distinct (concat (table_rays t origin))"
    and "r \<in> set (concat (table_rays t origin)) \<Longrightarrow> 0 \<le> int origin + r \<and> int origin + r < 25"
proof -
  have mem: "origin \<in> set [0..<25]" using assms by simp
  have "distinct (concat (table_rays t origin))
      \<and> list_all (\<lambda>r. 0 \<le> int origin + r \<and> int origin + r < 25) (concat (table_rays t origin))"
  proof (cases t)
    case TileNone
    then show ?thesis using table_targets_None mem unfolding list_all_iff [of _ "[0..<25]"] by blast
  next
    case TileBlack
    then show ?thesis using table_targets_Black mem unfolding list_all_iff [of _ "[0..<25]"] by blast
  next
    case TileGray
    then show ?thesis using table_targets_Gray mem unfolding list_all_iff [of _ "[0..<25]"] by blast
  qed
  then show "distinct (concat (table_rays t origin))"
    and "r \<in> set (concat (table_rays t origin)) \<Longrightarrow> 0 \<le> int origin + r \<and> int origin + r < 25"
    unfolding list_all_iff by blast+
qed

lemma target_in_range:
  assumes "0 \<le> t" and "t < 25"
  shows "t smod BOARD_W = t mod 5" and "t sdiv BOARD_W = t div 5"
    and "0 \<le> t mod 5" and "t mod 5 < 5" and "0 \<le> t div 5" and "t div 5 < 5"
  using assms by (simp_all add: signed_modulo_int_def signed_divide_int_def sgn_if BOARD_W_def)


lemma ray_walk_length: "length (ray_walk b p x y origin ef step rs) \<le> 1"
  by (induction rs arbitrary: ef step) (simp_all add: Let_def)

lemma short_distinct: "length xs \<le> 1 \<Longrightarrow> distinct xs"
  by (cases xs) auto

lemma dir_moves_distinct: "distinct (dir_moves b p x y origin dir)"
  by (rule short_distinct) (use ray_walk_length [of b p x y origin False 0] in \<open>simp add: dir_moves_def\<close>)

lemma landing_move_target:
  assumes "0 \<le> y * BOARD_W + x + r" and "y * BOARD_W + x + r < 25"
  shows "dy (landing_move x y r) * 5 + dx (landing_move x y r) - (y * BOARD_W + x) = r"
    and "on_board (dx (landing_move x y r)) (dy (landing_move x y r))"
  using target_in_range [OF assms]
  by (simp_all add: landing_move_fields target_x_def target_y_def on_board_def BOARD_W_def BOARD_H_def)

lemma piece_moves_distinct:
  assumes "x \<in> {0 .. 4}" and "y \<in> {0 .. 4}"
  shows "distinct (piece_moves b p x y)"
proof (cases "occupant (board_at b x y) = p")
  case False
  then show ?thesis by (simp add: piece_moves_def)
next
  case True
  let ?o = "y * BOARD_W + x"
  let ?t = "tile (board_at b x y)"
  let ?e = "kMoveTable ! nat (tile_int ?t) ! nat ?o"
  let ?K = "\<lambda>d. take (step_count d) (rel_index d)"
  let ?g = "\<lambda>m. dy m * 5 + dx m - ?o"
  have o: "nat ?o < 25" "int (nat ?o) = ?o" using assms by (auto simp add: BOARD_W_def)
  have rays: "map ?K (take (dir_count ?e) (dirs ?e)) = table_rays ?t (nat ?o)"
    by (simp add: table_rays_def entry_rays_def)
  have dK: "distinct (concat (map ?K (take (dir_count ?e) (dirs ?e))))"
    unfolding rays by (rule table_targets(1) [OF o(1)])
  have "distinct (concat (map (dir_moves b p x y ?o) (take (dir_count ?e) (dirs ?e))))"
  proof (rule distinct_concat_map_key [where K = ?K and g = ?g, OF dK])
    fix d assume d: "d \<in> set (take (dir_count ?e) (dirs ?e))"
    have "?g m \<in> set (?K d)" if m: "m \<in> set (dir_moves b p x y ?o d)" for m
    proof -
      from m have "m \<in> set (ray_walk b p x y ?o False 0 (?K d))"
        by (auto simp add: dir_moves_def split: if_splits)
      from ray_walk_emits [OF this] obtain r where r: "r \<in> set (?K d)"
        "m = landing_move x y r" by (auto simp add: landing_move_def)
      have "r \<in> set (concat (table_rays ?t (nat ?o)))"
        using r(1) d unfolding rays [symmetric] by auto
      from table_targets(2) [OF o(1) this] have "0 \<le> ?o + r \<and> ?o + r < 25"
        using o(2) by simp
      then have "?g m = r" using landing_move_target(1) [of y x r] r(2) by simp
      then show ?thesis using r(1) by simp
    qed
    then show "distinct (dir_moves b p x y ?o d) \<and> ?g ` set (dir_moves b p x y ?o d) \<subseteq> set (?K d)"
      using dir_moves_distinct by blast
  qed
  then show ?thesis using True by (simp add: piece_moves_def Let_def)
qed

lemma piece_moves_source:
  assumes "m \<in> set (piece_moves b p x y)"
  shows "sx m = x" and "sy m = y"
  using piece_moves_emits [OF assms] by (auto simp add: landing_move_fields)

lemma concat_singletons: "concat (map (\<lambda>x. [x]) xs) = xs"
  by (induction xs) simp_all

lemma base_moves_distinct: "distinct (base_moves s)"
proof -
  let ?b = "board s" and ?p = "current_player s"
  let ?row = "\<lambda>y. concat (map (\<lambda>x. piece_moves ?b ?p x y) [0 .. 4])"
  have row: "distinct (?row y) \<and> sy ` set (?row y) \<subseteq> set [y]" if y: "y \<in> set [0 .. 4]" for y
  proof -
    have "distinct (concat (map (\<lambda>x. piece_moves ?b ?p x y) [0 .. 4]))"
    proof (rule distinct_concat_map_key [where K = "\<lambda>x. [x]" and g = sx])
      show "distinct (concat (map (\<lambda>x. [x]) [0 .. (4::int)]))"
        unfolding concat_singletons by simp
    next
      fix x :: int assume x: "x \<in> set [0 .. 4]"
      show "distinct (piece_moves ?b ?p x y) \<and> sx ` set (piece_moves ?b ?p x y) \<subseteq> set [x]"
        using piece_moves_distinct [of x y ?b ?p] piece_moves_source(1) [of _ ?b ?p x y] x y
        by auto
    qed
    moreover have "sy ` set (?row y) \<subseteq> set [y]"
      using piece_moves_source(2) [of _ ?b ?p _ y] by auto
    ultimately show ?thesis by blast
  qed
  have "distinct (concat (map ?row [0 .. 4]))"
  proof (rule distinct_concat_map_key [where K = "\<lambda>y. [y]" and g = sy])
    show "distinct (concat (map (\<lambda>y. [y]) [0 .. (4::int)]))"
      unfolding concat_singletons by simp
  next
    fix y :: int assume "y \<in> set [0 .. 4]"
    then show "distinct (?row y) \<and> sy ` set (?row y) \<subseteq> set [y]" by (rule row)
  qed
  then show ?thesis by (simp add: base_moves_def BOARD_W_def BOARD_H_def)
qed

lemma placements_distinct: "distinct (placements b base t)"
proof -
  let ?cell = "\<lambda>y x. if occupant (board_at b x y) = NoPlayer \<and> tile (board_at b x y) = TileNone
         then [base\<lparr>place_tile := True, tx := x, ty := y, mtile := t\<rparr>] else []"
  let ?row = "\<lambda>y. concat (map (?cell y) [0 .. 4])"
  have row: "distinct (?row y) \<and> ty ` set (?row y) \<subseteq> set [y]" for y
  proof -
    have "distinct (concat (map (?cell y) [0 .. 4]))"
    proof (rule distinct_concat_map_key [where K = "\<lambda>x. [x]" and g = tx])
      show "distinct (concat (map (\<lambda>x. [x]) [0 .. (4::int)]))"
        unfolding concat_singletons by simp
    next
      fix x :: int
      show "distinct (?cell y x) \<and> tx ` set (?cell y x) \<subseteq> set [x]" by auto
    qed
    moreover have "ty ` set (?row y) \<subseteq> set [y]" by auto
    ultimately show ?thesis by blast
  qed
  have "distinct (concat (map ?row [0 .. 4]))"
  proof (rule distinct_concat_map_key [where K = "\<lambda>y. [y]" and g = ty])
    show "distinct (concat (map (\<lambda>y. [y]) [0 .. (4::int)]))"
      unfolding concat_singletons by simp
  next
    fix y :: int
    show "distinct (?row y) \<and> ty ` set (?row y) \<subseteq> set [y]" by (rule row)
  qed
  then show ?thesis by (simp add: placements_def BOARD_W_def BOARD_H_def)
qed

lemma placements_fields:
  assumes "m \<in> set (placements b base t)"
  shows "place_tile m" and "mtile m = t"
  using assms unfolding placements_iff by auto

lemma expand_move_distinct:
  assumes "\<not> place_tile base"
  shows "distinct (expand_move s base)"
proof -
  have "base \<notin> set (placements (board s) base t)" for t
    using placements_fields(1) assms by blast
  moreover have "set (placements (board s) base TileBlack) \<inter> set (placements (board s) base TileGray) = {}"
  proof (rule ccontr)
    assume "set (placements (board s) base TileBlack) \<inter> set (placements (board s) base TileGray) \<noteq> {}"
    then obtain m where "m \<in> set (placements (board s) base TileBlack)"
      "m \<in> set (placements (board s) base TileGray)" by blast
    then have "mtile m = TileBlack" "mtile m = TileGray" by (auto dest: placements_fields(2))
    then show False by simp
  qed
  ultimately show ?thesis
    by (simp add: expand_move_def Let_def placements_distinct)
qed

lemma strip_landing_move:
  "strip_placement (landing_move x y r) = landing_move x y r"
  "strip_placement (landing_move x y r\<lparr>place_tile := True, tx := a, ty := b, mtile := t\<rparr>)
     = landing_move x y r"
  by (simp_all add: strip_placement_def landing_move_def base_move_def)

lemma legal_moves_distinct: "distinct (legal_moves s)"
proof -
  have "distinct (concat (map (expand_move s) (base_moves s)))"
  proof (rule distinct_concat_map_key [where K = "\<lambda>m. [m]" and g = strip_placement])
    show "distinct (concat (map (\<lambda>m. [m]) (base_moves s)))"
      unfolding concat_singletons by (rule base_moves_distinct)
  next
    fix base assume "base \<in> set (base_moves s)"
    from base_moves_emits [OF this] obtain x y r where lm: "base = landing_move x y r" by blast
    have "strip_placement m = base" if "m \<in> set (expand_move s base)" for m
      using that unfolding expand_move_iff placements_iff lm
      by (auto simp add: strip_landing_move)
    moreover have "distinct (expand_move s base)"
      by (rule expand_move_distinct) (simp add: lm landing_move_fields)
    ultimately show "distinct (expand_move s base) \<and> strip_placement ` set (expand_move s base) \<subseteq> set [base]"
      by auto
  qed
  then show ?thesis by (simp add: legal_moves_def)
qed

lemma distinct_count_list:
  assumes "distinct xs"
  shows "count_list xs x = (if x \<in> set xs then 1 else 0)"
  using assms by (induction xs) auto


lemma placement_variant_member:
  assumes "base \<in> set (base_moves s)"
  shows "base\<lparr>place_tile := True, tx := x, ty := y, mtile := t\<rparr> \<in> set (legal_moves s)
       \<longleftrightarrow> (tile_available s t \<and> on_board x y
            \<and> occupant (board_at (board s) x y) = NoPlayer \<and> tile (board_at (board s) x y) = TileNone)"
    (is "?m \<in> _ \<longleftrightarrow> ?R")
proof
  assume ?R
  then have "x \<in> {0 .. 4}" "y \<in> {0 .. 4}"
    by (simp_all add: on_board_def BOARD_W_def BOARD_H_def)
  then have "?m \<in> set (placements (board s) base t)"
    unfolding placements_iff using \<open>?R\<close> by blast
  then have "?m \<in> set (expand_move s base)"
    using \<open>?R\<close> unfolding expand_move_iff by blast
  then show "?m \<in> set (legal_moves s)" using assms unfolding legal_moves_iff by blast
next
  assume "?m \<in> set (legal_moves s)"
  then obtain base' where base': "base' \<in> set (base_moves s)" and m: "?m \<in> set (expand_move s base')"
    unfolding legal_moves_iff by blast
  from base_moves_emits [OF base'] obtain x' y' r' where "base' = landing_move x' y' r'" by blast
  then have "\<not> place_tile base'" by (simp add: landing_move_fields)
  then have "?m \<noteq> base'" by auto
  with m obtain t' where t': "tile_available s t'" and pl: "?m \<in> set (placements (board s) base' t')"
    unfolding expand_move_iff by blast
  from pl obtain a b where ab: "a \<in> {0 .. 4}" "b \<in> {0 .. 4}"
    "occupant (board_at (board s) a b) = NoPlayer" "tile (board_at (board s) a b) = TileNone"
    and eq: "?m = base'\<lparr>place_tile := True, tx := a, ty := b, mtile := t'\<rparr>"
    unfolding placements_iff by blast
  from eq have "tx ?m = a" "ty ?m = b" "mtile ?m = t'" by (metis Move.select_convs Move.surjective Move.update_convs)+
  then have "x = a" "y = b" "t = t'" by simp_all
  then show ?R using ab t' by (simp add: on_board_def BOARD_W_def BOARD_H_def)
qed

text \<open>
  What \<open>legal_moves\<close> does produce. For every base move of the side to move it holds the
  base move once and, for each tile kind (Black, Gray) with a positive count in the mover's
  inventory, exactly one placement variant per cell that is unoccupied and tile-free on the
  board before the move, and none for any other cell. The destination \<open>(dx, dy)\<close> is
  therefore a target whenever it carries no tile, and the origin \<open>(sx, sy)\<close>, still occupied
  before the move, never is.
\<close>

theorem placement_variants:
  assumes "base \<in> set (base_moves s)"
  shows "count_list (legal_moves s) base = 1
       \<and> count_list (legal_moves s) (base\<lparr>place_tile := True, tx := x, ty := y, mtile := t\<rparr>)
           = (if tile_available s t \<and> on_board x y
                 \<and> occupant (board_at (board s) x y) = NoPlayer
                 \<and> tile (board_at (board s) x y) = TileNone
              then 1 else 0)
       \<and> count_list (legal_moves s)
             (base\<lparr>place_tile := True, tx := dx base, ty := dy base, mtile := t\<rparr>)
           = (if tile_available s t \<and> tile (board_at (board s) (dx base) (dy base)) = TileNone
              then 1 else 0)
       \<and> (current_player s = NoPlayer
          \<or> count_list (legal_moves s)
               (base\<lparr>place_tile := True, tx := sx base, ty := sy base, mtile := t\<rparr>) = 0)"
proof -
  note cnt = distinct_count_list [OF legal_moves_distinct, of s]
  have "base \<in> set (expand_move s base)" unfolding expand_move_iff by simp
  then have c1: "count_list (legal_moves s) base = 1"
    using assms unfolding cnt legal_moves_iff by auto
  have c2: "count_list (legal_moves s) (base\<lparr>place_tile := True, tx := x, ty := y, mtile := t\<rparr>)
           = (if tile_available s t \<and> on_board x y
                 \<and> occupant (board_at (board s) x y) = NoPlayer
                 \<and> tile (board_at (board s) x y) = TileNone
              then 1 else 0)" for x y
    unfolding cnt placement_variant_member [OF assms] by simp
  from base_moves_emits [OF assms] obtain x' y' ray r where
    xy: "x' \<in> {0 .. 4}" "y' \<in> {0 .. 4}"
    and occ: "occupant (board_at (board s) x' y') = current_player s"
    and ray: "ray \<in> set (table_rays (tile (board_at (board s) x' y')) (nat (y' * BOARD_W + x')))"
    and r: "r \<in> set ray"
    and lm: "base = landing_move x' y' r"
    and dest: "occupant (ray_cell (board s) (y' * BOARD_W + x') r) = NoPlayer"
    by blast
  have o: "nat (y' * BOARD_W + x') < 25" "int (nat (y' * BOARD_W + x')) = y' * BOARD_W + x'"
    using xy by (auto simp add: BOARD_W_def)
  have "r \<in> set (concat (table_rays (tile (board_at (board s) x' y')) (nat (y' * BOARD_W + x'))))"
    using ray r by auto
  from table_targets(2) [OF o(1) this] have rng: "0 \<le> y' * BOARD_W + x' + r" "y' * BOARD_W + x' + r < 25"
    using o(2) by simp_all
  have onb: "on_board (dx base) (dy base)"
    using landing_move_target(2) [OF rng] lm by simp
  have dst: "occupant (board_at (board s) (dx base) (dy base)) = NoPlayer"
    using dest lm by (simp add: landing_move_fields ray_cell_def)
  have src: "occupant (board_at (board s) (sx base) (sy base)) = current_player s"
    using occ lm by (simp add: landing_move_fields)
  have c3: "count_list (legal_moves s)
             (base\<lparr>place_tile := True, tx := dx base, ty := dy base, mtile := t\<rparr>)
           = (if tile_available s t \<and> tile (board_at (board s) (dx base) (dy base)) = TileNone
              then 1 else 0)"
    unfolding c2 using onb dst by simp
  have c4: "current_player s = NoPlayer
          \<or> count_list (legal_moves s)
               (base\<lparr>place_tile := True, tx := sx base, ty := sy base, mtile := t\<rparr>) = 0"
    unfolding c2 using src by auto
  show ?thesis using c1 c2 c3 c4 by blast
qed

text \<open>Lone Black piece at (2,2), base move to (2,3).\<close>

theorem placement_variants_witness:
  "landing_move 2 2 5 \<in> set (base_moves lone_black_state)
   \<and> count_list (legal_moves lone_black_state) (landing_move 2 2 5) = 1
   \<and> count_list (legal_moves lone_black_state)
        (landing_move 2 2 5\<lparr>place_tile := True, tx := 0, ty := 4, mtile := TileGray\<rparr>) = 1
   \<and> count_list (legal_moves lone_black_state)
        (landing_move 2 2 5\<lparr>place_tile := True, tx := 2, ty := 3, mtile := TileBlack\<rparr>) = 1
   \<and> count_list (legal_moves lone_black_state)
        (landing_move 2 2 5\<lparr>place_tile := True, tx := 2, ty := 2, mtile := TileBlack\<rparr>) = 0"
proof -
  have mem: "landing_move 2 2 5 \<in> set (base_moves lone_black_state)"
    by code_simp
  have facts: "tile_available lone_black_state TileGray" "tile_available lone_black_state TileBlack"
    "on_board 0 4" "on_board 2 3" "on_board 2 2"
    "occupant (board_at (board lone_black_state) 0 4) = NoPlayer"
    "tile (board_at (board lone_black_state) 0 4) = TileNone"
    "occupant (board_at (board lone_black_state) 2 3) = NoPlayer"
    "tile (board_at (board lone_black_state) 2 3) = TileNone"
    "occupant (board_at (board lone_black_state) 2 2) = Black"
    by code_simp+
  from placement_variants [OF mem, where x = 0 and y = 4 and t = TileGray]
    placement_variants [OF mem, where x = 2 and y = 3 and t = TileBlack]
    placement_variants [OF mem, where x = 2 and y = 2 and t = TileBlack]
  show ?thesis using mem facts by simp
qed

text \<open>
  Claim C1 asks for one placement variant per cell that is empty and tile-free after the
  motion, the destination \<open>(dx, dy)\<close> excluded and the vacated origin \<open>(sx, sy)\<close> included, as
  the human-move path of the play GUI computes its tile targets. \<open>legal_moves\<close> differs on
  both cells. In the initial position, for the base move (0,0) to (0,1) with a black tile:
  the variant placing on the destination (0,1) is in the list, the variant placing on the
  origin (0,0) is not.
\<close>

theorem placement_on_destination_not_origin:
  "landing_move 0 0 5 \<in> set (base_moves initial_state)
   \<and> sx (landing_move 0 0 5) = 0 \<and> sy (landing_move 0 0 5) = 0
   \<and> dx (landing_move 0 0 5) = 0 \<and> dy (landing_move 0 0 5) = 1
   \<and> black (inventory initial_state (current_player initial_state)) = 3
   \<and> landing_move 0 0 5\<lparr>place_tile := True, tx := 0, ty := 1, mtile := TileBlack\<rparr>
        \<in> set (legal_moves initial_state)
   \<and> landing_move 0 0 5\<lparr>place_tile := True, tx := 0, ty := 0, mtile := TileBlack\<rparr>
        \<notin> set (legal_moves initial_state)"
  by code_simp

section \<open>The 29-element state array\<close>

lemma check_cells_None:
  "check_cells a i = None \<longleftrightarrow> (\<forall>j. i \<le> j \<and> j < 25 \<longrightarrow> 0 \<le> a ! j \<and> a ! j \<le> 8)"
proof (induction a i rule: check_cells.induct)
  case (1 a i)
  show ?case
  proof (cases "i < 25")
    case False
    then show ?thesis by (subst check_cells.simps) auto
  next
    case True
    show ?thesis
    proof (cases "a ! i < 0 \<or> a ! i > 8")
      case bad: True
      then have "check_cells a i \<noteq> None" using True by (subst check_cells.simps) auto
      moreover have "\<not> (\<forall>j. i \<le> j \<and> j < 25 \<longrightarrow> 0 \<le> a ! j \<and> a ! j \<le> 8)"
        using bad True by (auto intro!: exI [of _ i])
      ultimately show ?thesis by blast
    next
      case good: False
      then have step: "check_cells a i = check_cells a (Suc i)"
        using True by (subst check_cells.simps) auto
      have "(\<forall>j. i \<le> j \<and> j < 25 \<longrightarrow> 0 \<le> a ! j \<and> a ! j \<le> 8)
          \<longleftrightarrow> (\<forall>j. Suc i \<le> j \<and> j < 25 \<longrightarrow> 0 \<le> a ! j \<and> a ! j \<le> 8)"
        using good by (metis Suc_leD Suc_leI le_neq_implies_less not_le_imp_less)
      then show ?thesis using step "1.IH" [OF True good] by simp
    qed
  qed
qed

lemma check_cells_0: "check_cells a 0 = None \<longleftrightarrow> (\<forall>i < 25. 0 \<le> a ! i \<and> a ! i \<le> 8)"
  unfolding check_cells_None by auto

lemma decode_cell_Some:
  assumes "0 \<le> v" and "v \<le> 8"
  shows "\<exists>c. decode_cell v = Some c \<and> encode_cell c = v"
proof -
  from assms have "v = 0 \<or> v = 1 \<or> v = 2 \<or> v = 3 \<or> v = 4 \<or> v = 5 \<or> v = 6 \<or> v = 7 \<or> v = 8"
    by arith
  then show ?thesis
    by (elim disjE)
       (simp_all add: decode_cell_def encode_cell_def signed_divide_int_def signed_modulo_int_def)
qed

lemma apply_cells_segment:
  assumes "map lin cs = [idx ..< idx + length cs]"
    and "idx + length cs \<le> length b"
    and "\<forall>k. idx \<le> k \<and> k < idx + length cs \<longrightarrow> 0 \<le> a ! k \<and> a ! k \<le> 8"
  shows "apply_cells a cs idx b
       = (None, take idx b @ map (\<lambda>k. the (decode_cell (a ! k))) [idx ..< idx + length cs]
                 @ drop (idx + length cs) b)"
  using assms
proof (induction cs arbitrary: idx b)
  case Nil
  then show ?case by simp
next
  case (Cons c cs)
  obtain x y where c: "c = (x, y)" by (cases c)
  have seg: "[idx ..< idx + length (c # cs)] = idx # [Suc idx ..< Suc idx + length cs]"
  proof -
    have "idx < Suc idx + length cs" by simp
    from upt_conv_Cons [OF this]
    have "[idx ..< Suc idx + length cs] = idx # [Suc idx ..< Suc idx + length cs]" .
    moreover have "idx + length (c # cs) = Suc idx + length cs" by simp
    ultimately show ?thesis by (simp only:)
  qed
  have hd: "lin (x, y) = idx" and tl: "map lin cs = [Suc idx ..< Suc idx + length cs]"
    using Cons.prems(1) c unfolding seg by simp_all
  have "0 \<le> a ! idx \<and> a ! idx \<le> 8" using Cons.prems(3) by simp
  then obtain cell where cell: "decode_cell (a ! idx) = Some cell"
    using decode_cell_Some by blast
  let ?b1 = "board_set b x y cell"
  have b1: "?b1 = b[idx := cell]" using hd by (simp add: board_set_def lin_def)
  have len: "Suc idx + length cs \<le> length ?b1" using Cons.prems(2) b1 by simp
  have rng: "\<forall>k. Suc idx \<le> k \<and> k < Suc idx + length cs \<longrightarrow> 0 \<le> a ! k \<and> a ! k \<le> 8"
    using Cons.prems(3) by simp
  have idxlt: "idx < length b" using Cons.prems(2) by simp
  have "apply_cells a (c # cs) idx b = apply_cells a cs (Suc idx) ?b1"
    using c cell by simp
  also have "\<dots> = (None, take (Suc idx) ?b1
                 @ map (\<lambda>k. the (decode_cell (a ! k))) [Suc idx ..< Suc idx + length cs]
                 @ drop (Suc idx + length cs) ?b1)"
    by (rule Cons.IH [OF tl len rng])
  also have "take (Suc idx) ?b1 = take idx b @ [cell]"
    using idxlt b1 by (simp add: take_Suc_conv_app_nth)
  also have "drop (Suc idx + length cs) ?b1 = drop (idx + length (c # cs)) b"
    using b1 by simp
  finally show ?case using cell unfolding seg by simp
qed

lemma lin_row_major: "map lin row_major = [0 ..< 25]"
  by code_simp

lemma length_row_major: "length row_major = 25"
  by code_simp

lemma apply_cells_row_major:
  assumes "wf_board b" and "\<forall>i < 25. 0 \<le> a ! i \<and> a ! i \<le> 8"
  shows "apply_cells a row_major 0 b = (None, map (\<lambda>k. the (decode_cell (a ! k))) [0 ..< 25])"
proof -
  have "apply_cells a row_major 0 b
       = (None, take 0 b @ map (\<lambda>k. the (decode_cell (a ! k))) [0 ..< 0 + length row_major]
                 @ drop (0 + length row_major) b)"
    by (rule apply_cells_segment)
       (use assms in \<open>simp_all add: lin_row_major length_row_major wf_board_def\<close>)
  then show ?thesis using assms(1) by (simp add: length_row_major wf_board_def)
qed

lemma apply_cells_never_fails:
  assumes "\<forall>k. idx \<le> k \<and> k < idx + length cs \<longrightarrow> 0 \<le> a ! k \<and> a ! k \<le> 8"
  shows "fst (apply_cells a cs idx b) = None"
  using assms
proof (induction cs arbitrary: idx b)
  case Nil
  then show ?case by simp
next
  case (Cons c cs)
  obtain x y where c: "c = (x, y)" by (cases c)
  have "0 \<le> a ! idx \<and> a ! idx \<le> 8" using Cons.prems by simp
  then obtain cell where cell: "decode_cell (a ! idx) = Some cell"
    using decode_cell_Some by blast
  have "fst (apply_cells a cs (Suc idx) (board_set b x y cell)) = None"
    by (rule Cons.IH) (use Cons.prems in simp)
  then show ?case using c cell by simp
qed

lemma board_codes_map:
  "board_codes b = map (\<lambda>i. encode_cell (b ! i)) [0 ..< 25]"
  by (simp add: board_codes_def board_at_def BOARD_W_def BOARD_H_def upto.simps upt_rec numeral_eq_Suc nat_add_distrib)


lemma array_to_board_valid:
  assumes "valid_array a"
  shows "array_to_board a s
       = (None, s\<lparr>board := snd (apply_cells a row_major 0 (board s)),
                  inv_black := (inv_black s)\<lparr>black := a ! 25, gray := a ! 26\<rparr>,
                  inv_white := (inv_white s)\<lparr>black := a ! 27, gray := a ! 28\<rparr>\<rparr>)"
proof -
  have cells: "\<forall>i < 25. 0 \<le> a ! i \<and> a ! i \<le> 8" using assms by (simp add: valid_array_def)
  then have chk: "check_cells a 0 = None" by (simp add: check_cells_0)
  have "fst (apply_cells a row_major 0 (board s)) = None"
    by (rule apply_cells_never_fails) (use cells in \<open>simp add: length_row_major\<close>)
  then obtain b' where ap: "apply_cells a row_major 0 (board s) = (None, b')"
    by (cases "apply_cells a row_major 0 (board s)") auto
  show ?thesis
    using assms chk ap by (simp add: array_to_board_def valid_array_def)
qed

lemma array_to_board_invalid:
  assumes "\<not> valid_array a"
  shows "fst (array_to_board a s) \<noteq> None \<and> snd (array_to_board a s) = s"
proof (cases "length a = 29")
  case False
  then show ?thesis by (simp add: array_to_board_def)
next
  case len: True
  show ?thesis
  proof (cases "check_cells a 0")
    case (Some e)
    then show ?thesis using len by (simp add: array_to_board_def)
  next
    case None
    then have "\<forall>i < 25. 0 \<le> a ! i \<and> a ! i \<le> 8" by (simp add: check_cells_0)
    then have "\<not> (0 \<le> a ! 25 \<and> a ! 25 \<le> 3 \<and> 0 \<le> a ! 26 \<and> a ! 26 \<le> 1
      \<and> 0 \<le> a ! 27 \<and> a ! 27 \<le> 3 \<and> 0 \<le> a ! 28 \<and> a ! 28 \<le> 1)"
      using assms len by (simp add: valid_array_def)
    then show ?thesis using len None by (auto simp add: array_to_board_def)
  qed
qed

lemma encode_decoded:
  assumes "0 \<le> v" and "v \<le> 8"
  shows "encode_cell (the (decode_cell v)) = v"
  using decode_cell_Some [OF assms] by auto

lemma array_split:
  assumes "length a = 29"
  shows "a = map (\<lambda>i. a ! i) [0 ..< 25] @ [a ! 25, a ! 26, a ! 27, a ! 28]"
proof -
  have "map (\<lambda>i. a ! i) [0 ..< 25] = take 25 a"
    using assms by (intro nth_equalityI) simp_all
  moreover have "[a ! 25, a ! 26, a ! 27, a ! 28] = drop 25 a"
    using assms by (intro nth_equalityI) (simp_all add: less_Suc_eq numeral_eq_Suc, auto)
  ultimately show ?thesis by simp
qed

text \<open>
  Claim C6. Decoding an integer array succeeds exactly when the array has 29 elements with
  the cells \<open>a[0..24]\<close> in \<open>0..8\<close>, \<open>a[25]\<close> and \<open>a[27]\<close> in \<open>0..3\<close>, \<open>a[26]\<close> and
  \<open>a[28]\<close> in \<open>0..1\<close>. On rejection the state is left as it was. On success, encoding the
  new state gives back the array, and the side to move is untouched.
\<close>

theorem array_to_board_roundtrip:
  "(fst (array_to_board a s) = None \<longleftrightarrow> valid_array a)
   \<and> (fst (array_to_board a s) \<noteq> None \<longrightarrow> snd (array_to_board a s) = s)
   \<and> (wf_board (board s) \<and> fst (array_to_board a s) = None \<longrightarrow>
        board_to_array (snd (array_to_board a s)) = a
      \<and> to_move (snd (array_to_board a s)) = to_move s)"
proof -
  have iff: "fst (array_to_board a s) = None \<longleftrightarrow> valid_array a"
    using array_to_board_valid [of a s] array_to_board_invalid [of a s] by (cases "valid_array a") auto
  have rej: "fst (array_to_board a s) \<noteq> None \<longrightarrow> snd (array_to_board a s) = s"
  proof
    assume "fst (array_to_board a s) \<noteq> None"
    then have "\<not> valid_array a" using iff by simp
    then show "snd (array_to_board a s) = s" using array_to_board_invalid by blast
  qed
  have rt: "board_to_array (snd (array_to_board a s)) = a
      \<and> to_move (snd (array_to_board a s)) = to_move s"
    if wf: "wf_board (board s)" and ok: "fst (array_to_board a s) = None"
  proof -
    have v: "valid_array a" using ok iff by simp
    then have cells: "\<forall>i < 25. 0 \<le> a ! i \<and> a ! i \<le> 8" and len: "length a = 29"
      by (simp_all add: valid_array_def)
    let ?b' = "map (\<lambda>k. the (decode_cell (a ! k))) [0 ..< 25]"
    have res: "snd (array_to_board a s)
       = s\<lparr>board := ?b',
            inv_black := (inv_black s)\<lparr>black := a ! 25, gray := a ! 26\<rparr>,
            inv_white := (inv_white s)\<lparr>black := a ! 27, gray := a ! 28\<rparr>\<rparr>"
      unfolding array_to_board_valid [OF v] apply_cells_row_major [OF wf cells] by simp
    have "map (\<lambda>i. encode_cell (?b' ! i)) [0 ..< 25] = map (\<lambda>i. a ! i) [0 ..< 25]"
    proof (rule map_cong [OF refl])
      fix i assume "i \<in> set [0 ..< 25]"
      then have i: "i < 25" by simp
      then have "?b' ! i = the (decode_cell (a ! i))" by simp
      then show "encode_cell (?b' ! i) = a ! i" using encode_decoded cells i by simp
    qed
    then have "board_to_array (snd (array_to_board a s))
             = map (\<lambda>i. a ! i) [0 ..< 25] @ [a ! 25, a ! 26, a ! 27, a ! 28]"
      unfolding res board_to_array_def board_codes_map [unfolded board_codes_def BOARD_W_def BOARD_H_def, simplified]
      by (simp add: inventory_def)
    then show ?thesis using array_split [OF len] res by simp
  qed
  show ?thesis using iff rej rt by blast
qed

text \<open>The array of the initial position is accepted; cut to 28 elements it is rejected.\<close>

theorem array_to_board_roundtrip_witness:
  "valid_array initial_array
   \<and> wf_board (board lone_black_state)
   \<and> fst (array_to_board initial_array lone_black_state) = None
   \<and> board_to_array (snd (array_to_board initial_array lone_black_state)) = initial_array
   \<and> fst (array_to_board (take 28 initial_array) lone_black_state) = Some ArraySize
   \<and> snd (array_to_board (take 28 initial_array) lone_black_state) = lone_black_state"
proof -
  have wf: "wf_board (board lone_black_state)"
    by (simp add: wf_board_def lone_black_state_def)
  have ok: "fst (array_to_board initial_array lone_black_state) = None"
    by code_simp
  have bad: "fst (array_to_board (take 28 initial_array) lone_black_state) = Some ArraySize"
    by code_simp
  from array_to_board_roundtrip [of initial_array lone_black_state]
    array_to_board_roundtrip [of "take 28 initial_array" lone_black_state]
  show ?thesis using wf ok bad by simp
qed

section \<open>Canonical boards\<close>

lemma upt_25: "[0 ..< 25] = [0, 1, 2, 3, 4, 5, 6, 7, 8, 9, 10, 11, 12, 13, 14, 15, 16, 17, 18, 19, 20, 21, 22, 23, 24]"
  by code_simp

lemma upto_4: "[0 .. 4 :: int] = [0, 1, 2, 3, 4]"
  by code_simp

lemma flip_horizontal_map:
  "flip_horizontal b = map (\<lambda>i. b ! flip_index i) [0 ..< 25]"
  unfolding upt_25
  by (simp add: flip_horizontal_def board_at_def BOARD_W_def BOARD_H_def upto_4 flip_index_def)

lemma flip_index_div_mod:
  "flip_index i div 5 = i div 5" "flip_index i mod 5 = 4 - i mod 5"
proof -
  define k where "k = 4 - i mod 5"
  have k: "k < 5" by (simp add: k_def)
  have eq: "flip_index i = k + 5 * (i div 5)" by (simp add: flip_index_def k_def)
  show "flip_index i div 5 = i div 5" unfolding eq using k by simp
  have "(k + 5 * (i div 5)) mod 5 = k" using k by simp
  then show "flip_index i mod 5 = 4 - i mod 5" unfolding eq by (simp only: k_def)
qed

lemma flip_index_involution: "flip_index (flip_index i) = i"
proof -
  have "i mod 5 < 5" by simp
  then have "i mod 5 \<le> 4" by linarith
  then have inv: "4 - (4 - i mod 5) = i mod 5" by simp
  note d = flip_index_div_mod(1) [of i] and m = flip_index_div_mod(2) [of i]
  have "flip_index (flip_index i) = (flip_index i div 5) * 5 + (4 - flip_index i mod 5)"
    by (simp only: flip_index_def [of "flip_index i"])
  also have "\<dots> = (i div 5) * 5 + (4 - (4 - i mod 5))"
    unfolding d m ..
  also have "\<dots> = (i div 5) * 5 + i mod 5" unfolding inv ..
  finally show ?thesis by simp
qed

lemma flip_index_bound:
  assumes "i < 25"
  shows "flip_index i < 25"
proof -
  have "i div 5 < 5" using assms by (simp add: less_mult_imp_div_less)
  then have "i div 5 * 5 \<le> 20" by simp
  moreover have "4 - i mod 5 \<le> 4" by simp
  ultimately show ?thesis unfolding flip_index_def by linarith
qed

lemma flip_nth:
  assumes "i < 25"
  shows "flip_horizontal b ! i = b ! flip_index i"
  unfolding flip_horizontal_map using assms by simp

lemma flip_wf: "wf_board (flip_horizontal b)"
  unfolding flip_horizontal_map by (simp add: wf_board_def)

lemma flip_flip:
  assumes "wf_board b"
  shows "flip_horizontal (flip_horizontal b) = b"
proof (rule nth_equalityI)
  show "length (flip_horizontal (flip_horizontal b)) = length b"
    using assms flip_wf [of "flip_horizontal b"] by (simp add: wf_board_def)
next
  fix i assume "i < length (flip_horizontal (flip_horizontal b))"
  then have i: "i < 25" using flip_wf [of "flip_horizontal b"] by (simp add: wf_board_def)
  have "flip_horizontal (flip_horizontal b) ! i
      = flip_horizontal b ! flip_index i" by (rule flip_nth [OF i])
  also have "\<dots> = b ! flip_index (flip_index i)"
    by (rule flip_nth [OF flip_index_bound [OF i]])
  finally show "flip_horizontal (flip_horizontal b) ! i = b ! i"
    by (simp add: flip_index_involution)
qed

lemma encode_cell_inj:
  assumes "encode_cell c = encode_cell c'"
  shows "c = c'"
proof -
  have "occupant c = occupant c' \<and> tile c = tile c'"
    using assms unfolding encode_cell_def
    by (cases "occupant c"; cases "occupant c'"; cases "tile c"; cases "tile c'") simp_all
  then show ?thesis by simp
qed

lemma board_codes_inj:
  assumes "wf_board b" and "wf_board b'" and "board_codes b = board_codes b'"
  shows "b = b'"
proof (rule nth_equalityI)
  show "length b = length b'" using assms by (simp add: wf_board_def)
next
  fix i assume "i < length b"
  then have i: "i < 25" using assms(1) by (simp add: wf_board_def)
  have "map (\<lambda>i. encode_cell (b ! i)) [0 ..< 25] = map (\<lambda>i. encode_cell (b' ! i)) [0 ..< 25]"
    using assms(3) unfolding board_codes_map .
  then have "encode_cell (b ! i) = encode_cell (b' ! i)" using i by simp
  then show "b ! i = b' ! i" by (rule encode_cell_inj)
qed

lemma canonical_cases:
  "canonical b = (if board_codes (flip_horizontal b) < board_codes b
                  then flip_horizontal b else b)"
  by (simp add: canonical_def get_canonical_symmetry_def)

lemma canonical_flip:
  assumes "wf_board b"
  shows "canonical (flip_horizontal b) = canonical b"
proof -
  let ?f = "flip_horizontal b"
  have ff: "flip_horizontal ?f = b" by (rule flip_flip [OF assms])
  consider (lt) "board_codes ?f < board_codes b" | (gt) "board_codes b < board_codes ?f"
    | (eq) "board_codes ?f = board_codes b" by (rule linorder_cases)
  then show ?thesis
  proof cases
    case lt
    then have "\<not> board_codes b < board_codes ?f" by simp
    then show ?thesis using lt by (simp add: canonical_cases ff)
  next
    case gt
    then have "\<not> board_codes ?f < board_codes b" by simp
    then show ?thesis using gt by (simp add: canonical_cases ff)
  next
    case eq
    then have "?f = b" using board_codes_inj [OF flip_wf assms] by simp
    then show ?thesis by simp
  qed
qed

lemma canonical_idem:
  assumes "wf_board b"
  shows "canonical (canonical b) = canonical b"
proof (cases "board_codes (flip_horizontal b) < board_codes b")
  case True
  then have c: "canonical b = flip_horizontal b" by (simp add: canonical_cases)
  have "\<not> board_codes b < board_codes (flip_horizontal b)" using True by simp
  then show ?thesis unfolding c by (simp add: canonical_cases flip_flip [OF assms])
next
  case False
  then show ?thesis by (simp add: canonical_cases)
qed

lemma evaluate_flip:
  assumes "wf_board (board s)"
  shows "evaluate net (s\<lparr>board := flip_horizontal (board s)\<rparr>) = evaluate net s"
proof -
  have "canonical_state (s\<lparr>board := flip_horizontal (board s)\<rparr>) = canonical_state s"
    using canonical_flip [OF assms] by (simp add: canonical_state_def canonical_def Let_def)
  then show ?thesis by (simp add: evaluate_def current_player_def split: option.split)
qed

text \<open>
  Claim C5. For every board (of 25 cells), the canonical board is the lexicographically
  smaller of the board and its horizontal flip, read as the sequence of cell codes
  \<open>occupant * 3 + tile\<close>, the board itself on a tie; canonicalisation is idempotent and
  gives the same board for a board and for its flip; hence \<open>evaluate\<close> is unchanged when the
  board is mirrored and the inventories and the side to move are kept.
\<close>

theorem canonical_properties:
  assumes "wf_board (board s)"
  shows "canonical (board s)
           = (if board_codes (flip_horizontal (board s)) < board_codes (board s)
              then flip_horizontal (board s) else board s)
       \<and> board_codes (canonical (board s))
           = min (board_codes (board s)) (board_codes (flip_horizontal (board s)))
       \<and> canonical (canonical (board s)) = canonical (board s)
       \<and> canonical (flip_horizontal (board s)) = canonical (board s)
       \<and> evaluate net (s\<lparr>board := flip_horizontal (board s)\<rparr>) = evaluate net s"
proof -
  have "board_codes (canonical (board s))
           = min (board_codes (board s)) (board_codes (flip_horizontal (board s)))"
    by (auto simp add: canonical_cases min_def)
  then show ?thesis
    using canonical_cases [of "board s"] canonical_idem [OF assms] canonical_flip [OF assms]
      evaluate_flip [OF assms, of net]
    by simp
qed


text \<open>Scenario 8: a black tile on (1,2) against a black tile on (3,2).\<close>

theorem canonical_properties_witness:
  "wf_board (board tile_left_state)
   \<and> flip_horizontal (board tile_left_state) = board tile_right_state
   \<and> canonical (board tile_right_state) = canonical (board tile_left_state)
   \<and> evaluate (NTupleNetwork_new :: real NTupleNetwork) tile_right_state
       = evaluate NTupleNetwork_new tile_left_state"
proof -
  have wf: "wf_board (board tile_left_state)"
    by (simp add: wf_board_def tile_left_state_def initial_board_def)
  have fl: "flip_horizontal (board tile_left_state) = board tile_right_state"
    by code_simp
  have st: "tile_left_state\<lparr>board := board tile_right_state\<rparr> = tile_right_state"
    by (simp add: tile_left_state_def tile_right_state_def)
  from canonical_properties [OF wf, of "NTupleNetwork_new :: real NTupleNetwork"]
  have "canonical (flip_horizontal (board tile_left_state)) = canonical (board tile_left_state)"
    and "evaluate (NTupleNetwork_new :: real NTupleNetwork)
           (tile_left_state\<lparr>board := flip_horizontal (board tile_left_state)\<rparr>)
         = evaluate NTupleNetwork_new tile_left_state"
    by blast+
  then show ?thesis using wf fl st by simp
qed

section \<open>Evaluation and the width of the index\<close>

lemma weight_sum_lookup:
  "weight_sum ts ws cs v = lookup_sum (map (\<lambda>t. int_of_long_long (to_index t cs 0 0)) ts) ws v"
  by (induction ts ws cs v rule: weight_sum.induct) (simp_all split: option.split)

lemma spec_weight_sum_lookup:
  "spec_weight_sum ts ws cs v = lookup_sum (map (\<lambda>t. to_index t cs 0 0) ts) ws v"
  by (induction ts ws cs v rule: spec_weight_sum.induct) (simp_all split: option.split)

lemma canonical_initial: "canonical_state initial_state = initial_state"
  by code_simp

lemma initial_full_indices:
  "map (\<lambda>t. to_index t initial_state 0 0) init_tuples
   = [9297934335, 63, 63, 314943, 9285337215, 9285337215, 63, 63, 35007, 35007, 9297934719, 9297934719]"
  by code_simp

lemma initial_indices:
  "map (\<lambda>t. int_of_long_long (to_index t initial_state 0 0)) init_tuples
   = [707999743, 63, 63, 314943, 695402623, 695402623, 63, 63, 35007, 35007, 708000127, 708000127]"
  by code_simp

lemma replicate_11: "replicate 11 x = [x, x, x, x, x, x, x, x, x, x, x]"
  by (simp add: numeral_eq_Suc)

lemma initial_black_to_move: "current_player initial_state = Black"
  by (simp add: current_player_def initial_state_def)

text \<open>
  Claim C3 says that \<open>evaluate\<close> adds the weights at the full indices \<open>idx * 64 + T\<close>. The
  code stores each index in a 32-bit \<open>int\<close> first. For the initial position the first
  pattern has the index 9297934335, which does not fit: the weight read is the one at
  707999743. With the probe network the code returns 0 where the sum at the full indices
  is 1.
\<close>

theorem evaluate_index_truncated:
  "to_index (hd init_tuples) (canonical_state initial_state) 0 0 = 9297934335
   \<and> int_of_long_long 9297934335 = 707999743
   \<and> evaluate probe_network initial_state = Some 0
   \<and> spec_evaluate probe_network initial_state = Some 1"
proof -
  have i0: "to_index (hd init_tuples) (canonical_state initial_state) 0 0 = 9297934335"
    by code_simp
  have tr: "int_of_long_long 9297934335 = 707999743"
    by (simp add: int_of_long_long_def)
  have ev: "evaluate probe_network initial_state = Some 0"
    unfolding evaluate_def canonical_initial weight_sum_lookup probe_network_def
    by (simp add: initial_indices initial_black_to_move replicate_11 weight_at_def)
  have sp: "spec_evaluate probe_network initial_state = Some 1"
    unfolding spec_evaluate_def canonical_initial spec_weight_sum_lookup probe_network_def
    by (simp add: initial_full_indices initial_black_to_move replicate_11 weight_at_def)
  show ?thesis using i0 tr ev sp by blast
qed

text \<open>
  What the code computes in general: the sum at the narrowed indices, negated for White.
  It agrees with the sum at the full indices whenever every index is below \<open>2 ^ 31\<close>.
\<close>

lemma int_of_long_long_small:
  assumes "0 \<le> v" and "v < 2 ^ 31"
  shows "int_of_long_long v = v"
proof -
  have "sint (word_of_int v :: 32 word) = signed_take_bit 31 v"
    by (simp add: sint_sbintrunc')
  also have "\<dots> = v"
    by (rule signed_take_bit_int_eq_self) (use assms in simp_all)
  finally show ?thesis by (simp add: int_of_long_long_def)
qed

lemma evaluate_lookup:
  "evaluate net s
   = (case lookup_sum (map (\<lambda>t. int_of_long_long (to_index t (canonical_state s) 0 0)) (tuples net))
             (weights net) 0 of
        None \<Rightarrow> None
      | Some v \<Rightarrow> Some (if current_player s = White then - v else v))"
  by (simp add: evaluate_def weight_sum_lookup)

lemma evaluate_eq_spec_when_small:
  assumes "\<forall>t \<in> set (tuples net). 0 \<le> to_index t (canonical_state s) 0 0
             \<and> to_index t (canonical_state s) 0 0 < 2 ^ 31"
  shows "evaluate net s = spec_evaluate net s"
proof -
  have "map (\<lambda>t. int_of_long_long (to_index t (canonical_state s) 0 0)) (tuples net)
      = map (\<lambda>t. to_index t (canonical_state s) 0 0) (tuples net)"
    using assms by (intro map_cong [OF refl]) (simp add: int_of_long_long_small)
  then show ?thesis
    unfolding evaluate_def spec_evaluate_def weight_sum_lookup spec_weight_sum_lookup
    by (simp only:)
qed

section \<open>Loading weights\<close>

lemma length_init_tuples: "length init_tuples = 12"
  by (simp add: init_tuples_def base_patterns_def)

lemma load_mismatch:
  assumes "file_num_tuples f \<noteq> length (tuples net)"
  shows "load net (Some f) = Some net"
  using assms by (simp add: load_def)

lemma load_changes_only_on_match:
  assumes "load net file = Some net'" and "weights net' \<noteq> weights net"
  shows "\<exists>f. file = Some f \<and> file_num_tuples f = length (tuples net)"
  using assms by (auto simp add: load_def split: option.splits if_splits)

text \<open>
  Claim C8 has two parts. The weights are indeed left as they were when the stored pattern
  count differs (\<open>load_mismatch\<close>, \<open>load_changes_only_on_match\<close>). No error reaches the
  caller, though: \<open>load\<close> returns nothing and \<open>NTuplePolicy::load\<close> answers \<open>true\<close>, here for a
  file that stores 11 patterns against the catalogue's 12.
\<close>

theorem load_mismatch_silent:
  "load (NTupleNetwork_new :: real NTupleNetwork) (Some (WeightFile 11 (replicate 11 (1, [1]))))
     = Some NTupleNetwork_new
   \<and> NTuplePolicy_load (NTupleNetwork_new :: real NTupleNetwork)
        (Some (WeightFile 11 (replicate 11 (1, [1]))))
     = (True, Some NTupleNetwork_new)"
proof -
  have "length (tuples (NTupleNetwork_new :: real NTupleNetwork)) = 12"
    by (simp add: NTupleNetwork_new_def Let_def length_init_tuples)
  then show ?thesis
    by (simp add: NTuplePolicy_load_def load_mismatch)
qed

section \<open>The TD(0) update\<close>
















section \<open>Starting player of a training game\<close>




text \<open>The plain parallel trainer has no such rule: each of its games starts with Black.\<close>

lemma training_worker_starts_black: "to_move (training_worker_first_state game_num) = Black"
  by (simp add: training_worker_first_state_def play_training_game_first_state_def initial_state_def)

end
